theory Spec2Isabelle
  imports Main "HOL-Library.Word" "HOL-Library.Signed_Division" "HOL-Library.Sublist"
begin

section \<open>Data model\<close>

text \<open>
  Go integers: \<open>int64\<close> is a 64-bit word, and \<open>int\<close> is taken to be 64 bits wide as
  well (as on amd64 and arm64). Word arithmetic wraps around, as Go's does. Go's division
  truncates towards zero.
\<close>

type_synonym int64 = "64 word"
type_synonym goInt = "64 word"

definition goDiv :: "goInt \<Rightarrow> goInt \<Rightarrow> goInt" where
  "goDiv a b = word_of_int (sint a sdiv sint b)"

text \<open>
  A Go \<open>error\<close> value is represented by its message (\<open>err.Error()\<close>); the nil error is
  \<open>None\<close> of type \<open>error option\<close>. \<open>fmt.Errorf("%v", s)\<close> is the error with message \<open>s\<close>.
\<close>

datatype error = GoError string

fun errorMessage :: "error \<Rightarrow> string" where
  "errorMessage (GoError m) = m"

text \<open>
  Modelled from the spec: the declaration of the status enumeration is not part of the
  sources at hand; the spec lists its nine members, and the code names them as below.
\<close>

datatype resultStatus =
    errStatus | uploaded | downloaded | skipped | renewToken | renewPresignedURL
  | notFoundFile | needRetry | needRetryWithLowerConcurrency

text \<open>
  Modelled from the spec: the struct declarations used by the client are not part of the
  sources at hand. Their fields are the ones the code reads and writes; the envelope has
  the fields the spec lists, in the order of the positional literal in \<open>uploadFile\<close>.
\<close>

record encryptMetadata =
  key :: string
  iv :: string
  matdesc :: string

record contentKey =
  KeyID :: string
  EncryptionKey :: string
  Algorithm :: string

record encryptionAgent =
  Protocol :: string
  EncryptionAlgorithm :: string

record keyMetadata =
  EncryptionLibrary :: string

record encryptionData =
  EncryptionMode :: string
  WrappedContentKey :: contentKey
  EncryptionAgent :: encryptionAgent
  ContentEncryptionIV :: string
  KeyWrappingMetadata :: keyMetadata

record fileHeader =
  digest :: string
  contentLength :: int64
  encryptionMetadata :: "encryptMetadata option"

record compressionType =
  name :: string

record execResponseStageInfo =
  Location :: string
  Region :: string
  UseRegionalURL :: bool
  EndPoint :: string

text \<open>
  The opaque client handle is an \<open>interface{}\<close>; the code only asks whether it holds a
  string. Any other dynamic type (nil included) is kept by its printed type name.
\<close>

datatype cloudClient = StringClient string | OtherClient string

record snowflakeProgressPercentage =
  filename :: string
  fileSize :: int64
  outputStream :: nat
  showProgressBar :: bool

record fileOptions =
  putCallback :: "snowflakeProgressPercentage option"
  putCallbackOutputStream :: nat
  optShowProgressBar :: bool
  MultiPartThreshold :: int64
  GetFileToStream :: bool

record fileMetadata =
  resStatus :: resultStatus
  lastError :: "error option"
  presignedURL :: "string option"
  stageInfo :: execResponseStageInfo
  client :: cloudClient
  dstFileName :: string
  srcFileName :: string
  realSrcFileName :: string
  dstCompressionType :: "compressionType option"
  sha256Digest :: string
  encryptMeta :: "encryptMetadata option"
  srcStream :: "string option"
  realSrcStream :: "string option"
  dstStream :: string
  options :: fileOptions
  srcFileSize :: int64
  uploadSize :: int64
  dstFileSize :: int64
  parallel :: int64
  overwrite :: bool
  noSleepingTime :: bool
  lastMaxConcurrency :: goInt
  gcsFileHeaderDigest :: string
  gcsFileHeaderContentLength :: int64
  gcsFileHeaderEncryptionMeta :: "encryptMetadata option"

subsection \<open>HTTP and the outside world\<close>

record request =
  Method :: string
  url :: string
  headers :: "string \<rightharpoonup> string"
  body :: "string option"

text \<open>\<open>Header resp k\<close> is \<open>resp.Header.Get(k)\<close>: the empty string when the header is absent.\<close>

record response =
  StatusCode :: int
  Status :: string
  Header :: "string \<Rightarrow> string"
  ContentLength :: int64
  Body :: string

text \<open>
  The observable effects of a call: the requests handed to \<open>client.Do\<close>, oldest first, and
  the seconds passed to \<open>time.Sleep\<close>, in order.
\<close>

record world =
  sent :: "request list"
  slept :: "goInt list"

text \<open>
  Everything the code calls outside this repository is a parameter: the HTTP client
  (\<open>newGcsClient\<close> or the test double; its answer may depend on the requests seen so far),
  \<open>net/url\<close>, \<open>os\<close>, \<open>io\<close> and \<open>encoding/json\<close>. An unmarshal function returns the error
  together with the value left in the target.
\<close>

record env =
  clientDo :: "request list \<Rightarrow> request \<Rightarrow> error + response"
  httpNewRequest :: "string \<Rightarrow> string \<Rightarrow> error option"
  urlParse :: "string \<Rightarrow> error + string"
  urlQueryEscape :: "string \<Rightarrow> string"
  osOpen :: "string \<Rightarrow> error + string"
  osOpenFile :: "string \<Rightarrow> error option"
  ioCopy :: "string \<Rightarrow> error option"
  osStat :: "string \<Rightarrow> error + int64"
  jsonMarshal :: "encryptionData \<Rightarrow> error + string"
  jsonUnmarshalData :: "string \<Rightarrow> error option \<times> encryptionData option"
  jsonUnmarshalMeta :: "string \<Rightarrow> encryptMetadata option \<Rightarrow> error option \<times> encryptMetadata option"

section \<open>Library functions\<close>

text \<open>\<open>strings.ToLower\<close> on ASCII; bytes outside \<open>A\<close>..\<open>Z\<close> are kept.\<close>

definition lowerChar :: "char \<Rightarrow> char" where
  "lowerChar c = (if 65 \<le> (of_char c :: nat) \<and> (of_char c :: nat) \<le> 90
                  then char_of ((of_char c :: nat) + 32) else c)"

definition stringsToLower :: "string \<Rightarrow> string" where
  "stringsToLower s = map lowerChar s"

text \<open>\<open>strings.TrimLeft(s, "/")\<close>.\<close>

definition trimLeftSlash :: "string \<Rightarrow> string" where
  "trimLeftSlash s = dropWhile (\<lambda>c. c = CHR ''/'') s"

text \<open>\<open>strings.HasSuffix\<close>.\<close>

definition hasSuffix :: "string \<Rightarrow> string \<Rightarrow> bool" where
  "hasSuffix s suf = suffix suf s"

text \<open>
  \<open>strconv.Atoi\<close>: an optional sign, then at least one decimal digit and nothing else;
  a value outside the 64-bit range is an error.
\<close>

definition isDigit :: "char \<Rightarrow> bool" where
  "isDigit c = (48 \<le> (of_char c :: nat) \<and> (of_char c :: nat) \<le> 57)"

definition digitsValue :: "string \<Rightarrow> int" where
  "digitsValue ds = foldl (\<lambda>a c. 10 * a + (int (of_char c) - 48)) 0 ds"

definition strconvAtoi :: "string \<Rightarrow> error + int" where
  "strconvAtoi s =
     (let signed = (s \<noteq> [] \<and> (hd s = CHR ''+'' \<or> hd s = CHR ''-''));
          ds = (if signed then tl s else s);
          v = (if s \<noteq> [] \<and> hd s = CHR ''-'' then - digitsValue ds else digitsValue ds)
      in if ds = [] \<or> \<not> list_all isDigit ds
         then Inl (GoError (''strconv.Atoi: parsing '' @ s @ '': invalid syntax''))
         else if v < - (2 ^ 63) \<or> 2 ^ 63 \<le> v
         then Inl (GoError (''strconv.Atoi: parsing '' @ s @ '': value out of range''))
         else Inr v)"

text \<open>
  \<open>json.Unmarshal\<close> rejects empty input before it touches the target
  (\<open>unexpected end of JSON input\<close>); every other input is left to the parameter.
\<close>

definition unmarshalEncryptionData :: "env \<Rightarrow> string \<Rightarrow> error option \<times> encryptionData option" where
  "unmarshalEncryptionData e s =
     (if s = [] then (Some (GoError ''unexpected end of JSON input''), None)
      else jsonUnmarshalData e s)"

definition unmarshalEncryptMeta ::
  "env \<Rightarrow> string \<Rightarrow> encryptMetadata option \<Rightarrow> error option \<times> encryptMetadata option" where
  "unmarshalEncryptMeta e s target =
     (if s = [] then (Some (GoError ''unexpected end of JSON input''), target)
      else jsonUnmarshalMeta e s target)"

text \<open>
  Modelled from the spec: \<open>intMin\<close> and \<open>intMax\<close> are not part of the sources at hand;
  the spec reads them as the minimum and the maximum of two (signed) integers.
\<close>

definition intMin :: "goInt \<Rightarrow> goInt \<Rightarrow> goInt" where
  "intMin a b = (if sint a < sint b then a else b)"

definition intMax :: "goInt \<Rightarrow> goInt \<Rightarrow> goInt" where
  "intMax a b = (if sint a > sint b then a else b)"

section \<open>The GCS protocol client\<close>

definition gcsMetadataPrefix :: string where
  "gcsMetadataPrefix = ''x-goog-meta-''"

text \<open>
  Modelled from the spec: the constants \<open>sfcDigest\<close> and \<open>httpHeaderContentEncoding\<close> are
  not part of the sources at hand; they name the digest metadata entry and the
  content-encoding header.
\<close>

definition sfcDigest :: string where
  "sfcDigest = ''sfc-digest''"

definition httpHeaderContentEncoding :: string where
  "httpHeaderContentEncoding = ''Content-Encoding''"

definition gcsMetadataSfcDigest :: string where
  "gcsMetadataSfcDigest = gcsMetadataPrefix @ sfcDigest"

definition gcsMetadataMatdescKey :: string where
  "gcsMetadataMatdescKey = gcsMetadataPrefix @ ''matdesc''"

definition gcsMetadataEncryptionDataProp :: string where
  "gcsMetadataEncryptionDataProp = gcsMetadataPrefix @ ''encryptiondata''"

definition gcsFileHeaderDigest_key :: string where
  "gcsFileHeaderDigest_key = ''gcs-file-header-digest''"

definition gcsRegionMeCentral2 :: string where
  "gcsRegionMeCentral2 = ''me-central2''"

record gcsLocation =
  bucketName :: string
  path :: string

definition extractBucketNameAndPath :: "string \<Rightarrow> gcsLocation" where
  "extractBucketNameAndPath location =
     (if CHR ''/'' \<in> set location then
        (let containerName = takeWhile (\<lambda>c. c \<noteq> CHR ''/'') location;
             p = tl (dropWhile (\<lambda>c. c \<noteq> CHR ''/'') location);
             p' = (if p \<noteq> [] \<and> \<not> hasSuffix p ''/'' then p @ ''/'' else p)
         in \<lparr>bucketName = containerName, path = p'\<rparr>)
      else \<lparr>bucketName = location, path = []\<rparr>)"

definition getGcsCustomEndpoint :: "execResponseStageInfo \<Rightarrow> string" where
  "getGcsCustomEndpoint info =
     (let isRegionalURLEnabled =
            (stringsToLower (Region info) = gcsRegionMeCentral2 \<or> UseRegionalURL info)
      in if EndPoint info \<noteq> [] then ''https://'' @ EndPoint info
         else if Region info \<noteq> [] \<and> isRegionalURLEnabled
         then ''https://storage.'' @ stringsToLower (Region info) @ ''.rep.googleapis.com''
         else ''https://storage.googleapis.com'')"

definition generateFileURL :: "env \<Rightarrow> execResponseStageInfo \<Rightarrow> string \<Rightarrow> error + string" where
  "generateFileURL e info fname =
     (let gcsLoc = extractBucketNameAndPath (Location info);
          fullFilePath = path gcsLoc @ fname;
          endPoint = getGcsCustomEndpoint info
      in urlParse e (endPoint @ ''/'' @ bucketName gcsLoc @ ''/'' @ urlQueryEscape e fullFilePath))"

definition isTokenExpired :: "response \<Rightarrow> bool" where
  "isTokenExpired resp = (StatusCode resp = 401)"

text \<open>The transient class of status codes, tested alike by all three primitives.\<close>

definition isRetryStatus :: "int \<Rightarrow> bool" where
  "isRetryStatus c = (c = 403 \<or> c = 408 \<or> c = 429 \<or> c = 500 \<or> c = 503)"

text \<open>
  Modelled from the spec: \<open>withCloudStorageTimeout\<close> is not part of the sources at hand;
  it runs the request under a timeout scope, and a timeout or a cancellation is an error
  of the request, here an error answer of \<open>clientDo\<close>. So a call \<open>client.Do(req)\<close> under
  it asks the environment and records the request.
\<close>

definition clientDoRequest :: "env \<Rightarrow> request \<Rightarrow> world \<Rightarrow> (error + response) \<times> world" where
  "clientDoRequest e req w = (clientDo e (sent w) req, w\<lparr>sent := sent w @ [req]\<rparr>)"

subsection \<open>getFileHeader\<close>

text \<open>
  The request of the metadata probe (source lines 54 to 73), with each early return of
  the source as \<open>Inl\<close>.
\<close>

definition getFileHeader_request :: "env \<Rightarrow> fileMetadata \<Rightarrow> string \<Rightarrow> error + request" where
  "getFileHeader_request e meta fname =
     (case generateFileURL e (stageInfo meta) (trimLeftSlash fname) of
        Inl err \<Rightarrow> Inl err
      | Inr URL \<Rightarrow>
          (case client meta of
             OtherClient ty \<Rightarrow>
               Inl (GoError (''interface convertion. expected type string but got '' @ ty))
           | StringClient accessToken \<Rightarrow>
               (let gcsHeaders = [''Authorization'' \<mapsto> ''Bearer '' @ accessToken]
                in case httpNewRequest e ''HEAD'' URL of
                     Some err \<Rightarrow> Inl err
                   | None \<Rightarrow> Inr \<lparr>Method = ''HEAD'', url = URL, headers = gcsHeaders, body = None\<rparr>)))"

text \<open>The request is sent; a transport error whose message ends in \<open>EOF\<close> is retried once.\<close>

definition getFileHeader_do :: "env \<Rightarrow> request \<Rightarrow> world \<Rightarrow> (error + response) \<times> world" where
  "getFileHeader_do e req w =
     (case clientDoRequest e req w of
        (Inl err, w1) \<Rightarrow>
          if hasSuffix (errorMessage err) ''EOF'' then clientDoRequest e req w1 else (Inl err, w1)
      | (Inr resp, w1) \<Rightarrow> (Inr resp, w1))"

text \<open>The interpretation of the answer (source lines 89 to 133).\<close>

definition getFileHeader_response ::
  "env \<Rightarrow> response \<Rightarrow> fileMetadata \<Rightarrow> (fileHeader option \<times> error option) \<times> fileMetadata" where
  "getFileHeader_response e resp meta =
     (if StatusCode resp \<noteq> 200 then
        (let m0 = meta\<lparr>lastError := Some (GoError (Status resp)), resStatus := errStatus\<rparr>
         in if isRetryStatus (StatusCode resp) then
              (let m1 = m0\<lparr>lastError := Some (GoError (Status resp)), resStatus := needRetry\<rparr>
               in ((None, lastError m1), m1))
            else
              (let m1 = (if StatusCode resp = 404 then m0\<lparr>resStatus := notFoundFile\<rparr>
                         else if isTokenExpired resp
                         then m0\<lparr>lastError := Some (GoError (Status resp)), resStatus := renewToken\<rparr>
                         else m0)
               in ((None, lastError m1), m1)))
      else
        (case strconvAtoi (Header resp ''content-length'') of
           Inl err \<Rightarrow> ((None, Some err), meta)
         | Inr cl \<Rightarrow>
             (let encryptionMeta =
                    (if Header resp gcsMetadataEncryptionDataProp \<noteq> [] then
                       (case snd (unmarshalEncryptionData e (Header resp gcsMetadataEncryptionDataProp)) of
                          None \<Rightarrow> None
                        | Some encryptData \<Rightarrow>
                            Some \<lparr>key = EncryptionKey (WrappedContentKey encryptData),
                                  iv = ContentEncryptionIV encryptData,
                                  matdesc = (if Header resp gcsMetadataMatdescKey \<noteq> []
                                             then Header resp gcsMetadataMatdescKey else [])\<rparr>)
                     else None)
              in ((Some \<lparr>digest = Header resp gcsMetadataSfcDigest,
                         contentLength = word_of_int cl,
                         encryptionMetadata = encryptionMeta\<rparr>, None),
                  meta\<lparr>resStatus := uploaded\<rparr>))))"

definition snowflakeGcsClient_getFileHeader ::
  "env \<Rightarrow> world \<Rightarrow> fileMetadata \<Rightarrow> string
     \<Rightarrow> (fileHeader option \<times> error option) \<times> world \<times> fileMetadata" where
  "snowflakeGcsClient_getFileHeader e w meta fname =
     (if resStatus meta = uploaded \<or> resStatus meta = downloaded then
        ((Some \<lparr>digest = gcsFileHeaderDigest meta,
                contentLength = gcsFileHeaderContentLength meta,
                encryptionMetadata = gcsFileHeaderEncryptionMeta meta\<rparr>, None), w, meta)
      else if presignedURL meta \<noteq> None then
        ((None, None), w, meta\<lparr>resStatus := notFoundFile\<rparr>)
      else
        (case getFileHeader_request e meta fname of
           Inl err \<Rightarrow> ((None, Some err), w, meta)
         | Inr req \<Rightarrow>
             (case getFileHeader_do e req w of
                (Inl err, w1) \<Rightarrow> ((None, Some err), w1, meta)
              | (Inr resp, w1) \<Rightarrow>
                  (case getFileHeader_response e resp meta of (r, m1) \<Rightarrow> (r, w1, m1)))))"

subsection \<open>uploadFile\<close>

text \<open>
  The request of the upload (source lines 148 to 225): target URL and token, headers,
  envelope, source. The result keeps the access token, which the interpretation of the
  answer needs; the header map \<open>gcsHeaders\<close> is the one of the request.
\<close>

definition uploadFile_target :: "env \<Rightarrow> fileMetadata \<Rightarrow> error + (string \<times> string)" where
  "uploadFile_target e meta =
     (case presignedURL meta of
        Some u \<Rightarrow> Inr (u, [])
      | None \<Rightarrow>
          (case generateFileURL e (stageInfo meta) (trimLeftSlash (dstFileName meta)) of
             Inl err \<Rightarrow> Inl err
           | Inr u \<Rightarrow>
               (case client meta of
                  OtherClient ty \<Rightarrow>
                    Inl (GoError (''interface convertion. expected type string but got '' @ ty))
                | StringClient accessToken \<Rightarrow> Inr (u, accessToken))))"

definition uploadFile_contentEncoding :: "fileMetadata \<Rightarrow> string" where
  "uploadFile_contentEncoding meta =
     (let contentEncoding =
            (case dstCompressionType meta of
               Some ct \<Rightarrow> stringsToLower (name ct)
             | None \<Rightarrow> [])
      in if contentEncoding = ''gzip'' then [] else contentEncoding)"

text \<open>The envelope literal of source lines 181 to 196.\<close>

definition uploadFile_envelope :: "encryptMetadata \<Rightarrow> encryptionData" where
  "uploadFile_envelope em =
     \<lparr>EncryptionMode = ''FullBlob'',
      WrappedContentKey =
        \<lparr>KeyID = ''symmKey1'', EncryptionKey = key em, Algorithm = ''AES_CBC_256''\<rparr>,
      EncryptionAgent = \<lparr>Protocol = ''1.0'', EncryptionAlgorithm = ''AES_CBC_256''\<rparr>,
      ContentEncryptionIV = iv em,
      KeyWrappingMetadata = \<lparr>EncryptionLibrary = ''Java 5.3.0''\<rparr>\<rparr>"

definition uploadFile_headers :: "env \<Rightarrow> fileMetadata \<Rightarrow> string \<Rightarrow> error + (string \<rightharpoonup> string)" where
  "uploadFile_headers e meta accessToken =
     (let h0 = Map.empty(httpHeaderContentEncoding \<mapsto> uploadFile_contentEncoding meta);
          h1 = h0(gcsMetadataSfcDigest \<mapsto> sha256Digest meta);
          h2 = (if accessToken \<noteq> [] then h1(''Authorization'' \<mapsto> ''Bearer '' @ accessToken) else h1)
      in case encryptMeta meta of
           None \<Rightarrow> Inr h2
         | Some em \<Rightarrow>
             (case jsonMarshal e (uploadFile_envelope em) of
                Inl err \<Rightarrow> Inl err
              | Inr b \<Rightarrow>
                  Inr ((h2(gcsMetadataEncryptionDataProp \<mapsto> b))(gcsMetadataMatdescKey \<mapsto> matdesc em))))"

definition uploadFile_source :: "env \<Rightarrow> string \<Rightarrow> fileMetadata \<Rightarrow> error + string" where
  "uploadFile_source e dataFile meta =
     (case srcStream meta of
        Some s \<Rightarrow> (case realSrcStream meta of Some r \<Rightarrow> Inr r | None \<Rightarrow> Inr s)
      | None \<Rightarrow> osOpen e dataFile)"

definition uploadFile_request :: "env \<Rightarrow> string \<Rightarrow> fileMetadata \<Rightarrow> error + (request \<times> string)" where
  "uploadFile_request e dataFile meta =
     (case uploadFile_target e meta of
        Inl err \<Rightarrow> Inl err
      | Inr (uploadURL, accessToken) \<Rightarrow>
          (case uploadFile_headers e meta accessToken of
             Inl err \<Rightarrow> Inl err
           | Inr gcsHeaders \<Rightarrow>
               (case uploadFile_source e dataFile meta of
                  Inl err \<Rightarrow> Inl err
                | Inr uploadSrc \<Rightarrow>
                    (case httpNewRequest e ''PUT'' uploadURL of
                       Some err \<Rightarrow> Inl err
                     | None \<Rightarrow>
                         Inr (\<lparr>Method = ''PUT'', url = uploadURL, headers = gcsHeaders,
                               body = Some uploadSrc\<rparr>, accessToken)))))"

text \<open>\<open>gcsHeaders[k]\<close> on a Go map: the empty string when the key is absent.\<close>

definition mapGet :: "(string \<rightharpoonup> string) \<Rightarrow> string \<Rightarrow> string" where
  "mapGet m k = (case m k of None \<Rightarrow> [] | Some v \<Rightarrow> v)"

text \<open>The interpretation of the answer (source lines 237 to 271).\<close>

definition uploadFile_response ::
  "env \<Rightarrow> response \<Rightarrow> string \<Rightarrow> (string \<rightharpoonup> string) \<Rightarrow> string \<Rightarrow> fileMetadata
     \<Rightarrow> error option \<times> fileMetadata" where
  "uploadFile_response e resp accessToken gcsHeaders dataFile meta =
     (if StatusCode resp \<noteq> 200 then
        (let m1 =
               (if isRetryStatus (StatusCode resp)
                then meta\<lparr>lastError := Some (GoError (Status resp)), resStatus := needRetry\<rparr>
                else if accessToken = [] \<and> StatusCode resp = 400 \<and> lastError meta = None
                then meta\<lparr>lastError := Some (GoError (Status resp)), resStatus := renewPresignedURL\<rparr>
                else if accessToken \<noteq> [] \<and> isTokenExpired resp
                then meta\<lparr>lastError := Some (GoError (Status resp)), resStatus := renewToken\<rparr>
                else meta\<lparr>lastError := Some (GoError (Status resp))\<rparr>)
         in (lastError m1, m1))
      else
        (let m1 = (if putCallback (options meta) \<noteq> None
                   then meta\<lparr>options := (options meta)\<lparr>putCallback :=
                          Some \<lparr>filename = dataFile,
                                fileSize = srcFileSize meta,
                                outputStream = putCallbackOutputStream (options meta),
                                showProgressBar = optShowProgressBar (options meta)\<rparr>\<rparr>\<rparr>
                   else meta);
             m2 = m1\<lparr>dstFileSize := uploadSize m1, resStatus := uploaded\<rparr>;
             m3 = m2\<lparr>gcsFileHeaderDigest := mapGet gcsHeaders gcsFileHeaderDigest_key,
                     gcsFileHeaderContentLength := uploadSize m2\<rparr>
         in case unmarshalEncryptMeta e (mapGet gcsHeaders gcsMetadataEncryptionDataProp)
                   (encryptMeta m3) of
              (Some err, em) \<Rightarrow> (Some err, m3\<lparr>encryptMeta := em\<rparr>)
            | (None, em) \<Rightarrow>
                (None, m3\<lparr>encryptMeta := em, gcsFileHeaderEncryptionMeta := em\<rparr>)))"

definition snowflakeGcsClient_uploadFile ::
  "env \<Rightarrow> world \<Rightarrow> string \<Rightarrow> fileMetadata \<Rightarrow> goInt \<Rightarrow> int64
     \<Rightarrow> error option \<times> world \<times> fileMetadata" where
  "snowflakeGcsClient_uploadFile e w dataFile meta maxConcurrency multiPartThreshold =
     (case uploadFile_request e dataFile meta of
        Inl err \<Rightarrow> (Some err, w, meta)
      | Inr (req, accessToken) \<Rightarrow>
          (case clientDoRequest e req w of
             (Inl err, w1) \<Rightarrow> (Some err, w1, meta)
           | (Inr resp, w1) \<Rightarrow>
               (case uploadFile_response e resp accessToken (headers req) dataFile meta of
                  (r, m1) \<Rightarrow> (r, w1, m1))))"

subsection \<open>nativeDownloadFile\<close>

definition nativeDownloadFile_generated ::
  "env \<Rightarrow> fileMetadata \<Rightarrow> error + (string \<times> string \<times> (string \<rightharpoonup> string))" where
  "nativeDownloadFile_generated e meta =
     (case generateFileURL e (stageInfo meta) (trimLeftSlash (srcFileName meta)) of
        Inl err \<Rightarrow> Inl err
      | Inr u \<Rightarrow>
          (case client meta of
             OtherClient ty \<Rightarrow>
               Inl (GoError (''interface convertion. expected type string but got '' @ ty))
           | StringClient accessToken \<Rightarrow>
               Inr (u, accessToken,
                    if accessToken \<noteq> []
                    then [''Authorization'' \<mapsto> ''Bearer '' @ accessToken]
                    else Map.empty)))"

definition nativeDownloadFile_request :: "env \<Rightarrow> fileMetadata \<Rightarrow> error + (request \<times> string)" where
  "nativeDownloadFile_request e meta =
     (case (case presignedURL meta of
              None \<Rightarrow> nativeDownloadFile_generated e meta
            | Some u \<Rightarrow>
                if u = [] then nativeDownloadFile_generated e meta else Inr (u, [], Map.empty)) of
        Inl err \<Rightarrow> Inl err
      | Inr (downloadURL, accessToken, gcsHeaders) \<Rightarrow>
          (case httpNewRequest e ''GET'' downloadURL of
             Some err \<Rightarrow> Inl err
           | None \<Rightarrow>
               Inr (\<lparr>Method = ''GET'', url = downloadURL, headers = gcsHeaders, body = None\<rparr>,
                    accessToken)))"

text \<open>
  Writing the body (source lines 337 to 355): into the sink stream, or into the
  destination file, whose size is then read back.
\<close>

definition nativeDownloadFile_store ::
  "env \<Rightarrow> response \<Rightarrow> string \<Rightarrow> fileMetadata \<Rightarrow> error option \<times> fileMetadata" where
  "nativeDownloadFile_store e resp fullDstFileName meta =
     (if GetFileToStream (options meta) then
        (case ioCopy e (Body resp) of
           Some err \<Rightarrow> (Some err, meta)
         | None \<Rightarrow> (None, meta\<lparr>dstStream := dstStream meta @ Body resp\<rparr>))
      else
        (case osOpenFile e fullDstFileName of
           Some err \<Rightarrow> (Some err, meta)
         | None \<Rightarrow>
             (case ioCopy e (Body resp) of
                Some err \<Rightarrow> (Some err, meta)
              | None \<Rightarrow>
                  (case osStat e fullDstFileName of
                     Inl err \<Rightarrow> (Some err, meta)
                   | Inr sz \<Rightarrow> (None, meta\<lparr>srcFileSize := sz\<rparr>)))))"

text \<open>The envelope of the answer (source lines 357 to 373).\<close>

definition nativeDownloadFile_envelope :: "env \<Rightarrow> response \<Rightarrow> error + encryptMetadata" where
  "nativeDownloadFile_envelope e resp =
     (if Header resp gcsMetadataEncryptionDataProp \<noteq> [] then
        (case unmarshalEncryptionData e (Header resp gcsMetadataEncryptionDataProp) of
           (Some err, d) \<Rightarrow> Inl err
         | (None, None) \<Rightarrow> Inr \<lparr>key = [], iv = [], matdesc = []\<rparr>
         | (None, Some encryptData) \<Rightarrow>
             Inr \<lparr>key = EncryptionKey (WrappedContentKey encryptData),
                  iv = ContentEncryptionIV encryptData,
                  matdesc = (if Header resp gcsMetadataMatdescKey \<noteq> []
                             then Header resp gcsMetadataMatdescKey else [])\<rparr>)
      else Inr \<lparr>key = [], iv = [], matdesc = []\<rparr>)"

definition nativeDownloadFile_response ::
  "env \<Rightarrow> response \<Rightarrow> string \<Rightarrow> string \<Rightarrow> fileMetadata \<Rightarrow> error option \<times> fileMetadata" where
  "nativeDownloadFile_response e resp accessToken fullDstFileName meta =
     (if StatusCode resp \<noteq> 200 then
        (let m1 =
               (if isRetryStatus (StatusCode resp)
                then meta\<lparr>lastError := Some (GoError (Status resp)), resStatus := needRetry\<rparr>
                else if StatusCode resp = 404
                then meta\<lparr>lastError := Some (GoError (Status resp)), resStatus := notFoundFile\<rparr>
                else if accessToken = [] \<and> StatusCode resp = 400 \<and> lastError meta = None
                then meta\<lparr>lastError := Some (GoError (Status resp)), resStatus := renewPresignedURL\<rparr>
                else if accessToken \<noteq> [] \<and> isTokenExpired resp
                then meta\<lparr>lastError := Some (GoError (Status resp)), resStatus := renewToken\<rparr>
                else meta\<lparr>lastError := Some (GoError (Status resp))\<rparr>)
         in (lastError m1, m1))
      else
        (case nativeDownloadFile_store e resp fullDstFileName meta of
           (Some err, m1) \<Rightarrow> (Some err, m1)
         | (None, m1) \<Rightarrow>
             (case nativeDownloadFile_envelope e resp of
                Inl err \<Rightarrow> (Some err, m1)
              | Inr encMeta \<Rightarrow>
                  (None, m1\<lparr>resStatus := downloaded,
                            gcsFileHeaderDigest := Header resp gcsMetadataSfcDigest,
                            gcsFileHeaderContentLength := ContentLength resp,
                            gcsFileHeaderEncryptionMeta := Some encMeta\<rparr>))))"

definition snowflakeGcsClient_nativeDownloadFile ::
  "env \<Rightarrow> world \<Rightarrow> fileMetadata \<Rightarrow> string \<Rightarrow> int64 \<Rightarrow> error option \<times> world \<times> fileMetadata" where
  "snowflakeGcsClient_nativeDownloadFile e w meta fullDstFileName maxConcurrency =
     (case nativeDownloadFile_request e meta of
        Inl err \<Rightarrow> (Some err, w, meta)
      | Inr (req, accessToken) \<Rightarrow>
          (case clientDoRequest e req w of
             (Inl err, w1) \<Rightarrow> (Some err, w1, meta)
           | (Inr resp, w1) \<Rightarrow>
               (case nativeDownloadFile_response e resp accessToken fullDstFileName meta of
                  (r, m1) \<Rightarrow> (r, w1, m1))))"

section \<open>The transfer orchestrator\<close>

text \<open>
  The interface \<open>cloudUtil\<close>, with the two primitives the upload path calls. The
  orchestrator receives the client that \<open>getNativeCloudType\<close> selects for the stage
  (for an unknown location type that is nil, and the first call on it panics; the S3 and
  Azure clients are not part of the sources at hand). \<open>gcsCloudUtil\<close> is the client
  selected for a GCS stage. \<open>uploadOneFile\<close> and \<open>uploadOneFileWithRetry\<close> select
  by the same location type, so one client serves both.
\<close>

record cloudUtil =
  getFileHeader ::
    "world \<Rightarrow> fileMetadata \<Rightarrow> string \<Rightarrow> (fileHeader option \<times> error option) \<times> world \<times> fileMetadata"
  uploadFile ::
    "world \<Rightarrow> string \<Rightarrow> fileMetadata \<Rightarrow> goInt \<Rightarrow> int64 \<Rightarrow> error option \<times> world \<times> fileMetadata"

definition gcsCloudUtil :: "env \<Rightarrow> cloudUtil" where
  "gcsCloudUtil e =
     \<lparr>getFileHeader = snowflakeGcsClient_getFileHeader e,
      uploadFile = snowflakeGcsClient_uploadFile e\<rparr>"

definition defaultConcurrency :: goInt where
  "defaultConcurrency = 1"

definition defaultMaxRetry :: nat where
  "defaultMaxRetry = 5"

subsection \<open>uploadOneFile\<close>

text \<open>
  \<open>intMin(int(math.Exp2(float64(retry))), 16)\<close>; the power of two is exact for the
  retry indices of the loop.
\<close>

definition sleepingTime :: "nat \<Rightarrow> goInt" where
  "sleepingTime retry = intMin (2 ^ retry) 16"

definition timeSleep :: "goInt \<Rightarrow> world \<Rightarrow> world" where
  "timeSleep seconds w = w\<lparr>slept := slept w @ [seconds]\<rparr>"

definition uploadOneFile_sleep :: "nat \<Rightarrow> world \<Rightarrow> fileMetadata \<Rightarrow> world" where
  "uploadOneFile_sleep retry w meta =
     (if \<not> noSleepingTime meta then timeSleep (sleepingTime retry) w else w)"

text \<open>
  Source lines 97 and 98: \<open>int(meta.parallel) - (retry * int(meta.parallel) / maxRetry)\<close>,
  floored by \<open>defaultConcurrency\<close>.
\<close>

definition uploadOneFile_lowerConcurrency :: "int64 \<Rightarrow> nat \<Rightarrow> goInt" where
  "uploadOneFile_lowerConcurrency p retry =
     intMax defaultConcurrency (p - goDiv (of_nat retry * p) (of_nat defaultMaxRetry))"

text \<open>
  Source lines 77 to 81. The result \<open>Some r\<close> says that \<open>uploadOneFile\<close> returns \<open>r\<close>
  here; \<open>None\<close> says that it goes on.
\<close>

definition uploadOneFile_skip ::
  "fileHeader option \<Rightarrow> world \<Rightarrow> fileMetadata \<Rightarrow> (error option) option \<times> world \<times> fileMetadata" where
  "uploadOneFile_skip header w meta =
     (if header \<noteq> None \<and> resStatus meta = uploaded
      then (Some None, w, meta\<lparr>dstFileSize := 0, resStatus := skipped\<rparr>)
      else (None, w, meta))"

text \<open>Source lines 67 to 82: the probe when overwrite is off.\<close>

definition uploadOneFile_probe ::
  "cloudUtil \<Rightarrow> goInt \<Rightarrow> world \<Rightarrow> fileMetadata \<Rightarrow> (error option) option \<times> world \<times> fileMetadata" where
  "uploadOneFile_probe utilClass maxConcurrency w meta =
     (if \<not> overwrite meta then
        (case getFileHeader utilClass w meta (dstFileName meta) of
           ((header, err), w1, m1) \<Rightarrow>
             (if resStatus m1 = notFoundFile then
                (case uploadFile utilClass w1 (realSrcFileName m1) m1 maxConcurrency
                        (MultiPartThreshold (options m1)) of
                   (uerr, w2, m2) \<Rightarrow> uploadOneFile_skip header w2 m2)
              else if err \<noteq> None then (Some err, w1, m1)
              else uploadOneFile_skip header w1 m1))
      else (None, w, meta))"

text \<open>Source lines 67 to 88: probe, then the upload of lines 83 to 88.\<close>

definition uploadOneFile_attempt ::
  "cloudUtil \<Rightarrow> goInt \<Rightarrow> world \<Rightarrow> fileMetadata \<Rightarrow> (error option) option \<times> world \<times> fileMetadata" where
  "uploadOneFile_attempt utilClass maxConcurrency w meta =
     (case uploadOneFile_probe utilClass maxConcurrency w meta of
        (Some r, w1, m1) \<Rightarrow> (Some r, w1, m1)
      | (None, w1, m1) \<Rightarrow>
          (if overwrite m1 \<or> resStatus m1 = notFoundFile then
             (case uploadFile utilClass w1 (realSrcFileName m1) m1 maxConcurrency
                     (MultiPartThreshold (options m1)) of
                (uerr, w2, m2) \<Rightarrow> (None, w2, m2))
           else (None, w1, m1)))"

text \<open>
  Source lines 89 to 105: the status decides. The first component says that the call
  returns nil; otherwise the loop goes on with the concurrency of the second component.
\<close>

definition uploadOneFile_inspect ::
  "nat \<Rightarrow> goInt \<Rightarrow> world \<Rightarrow> fileMetadata \<Rightarrow> bool \<times> goInt \<times> world \<times> fileMetadata" where
  "uploadOneFile_inspect retry maxConcurrency w meta =
     (if resStatus meta = uploaded \<or> resStatus meta = renewToken
         \<or> resStatus meta = renewPresignedURL
      then (True, maxConcurrency, w, meta)
      else if resStatus meta = needRetry
      then (False, maxConcurrency, uploadOneFile_sleep retry w meta, meta)
      else if resStatus meta = needRetryWithLowerConcurrency
      then (let mc = uploadOneFile_lowerConcurrency (parallel meta) retry;
                m1 = meta\<lparr>lastMaxConcurrency := mc\<rparr>
            in (False, mc, uploadOneFile_sleep retry w m1, m1))
      else (False, maxConcurrency, w, meta))"

function uploadOneFile_loop ::
  "cloudUtil \<Rightarrow> nat \<Rightarrow> goInt \<Rightarrow> error option \<Rightarrow> world \<Rightarrow> fileMetadata
     \<Rightarrow> error option \<times> world \<times> fileMetadata" where
  "uploadOneFile_loop utilClass retry maxConcurrency lastErr w meta =
     (if retry < defaultMaxRetry then
        (case uploadOneFile_attempt utilClass maxConcurrency w meta of
           (Some r, w1, m1) \<Rightarrow> (r, w1, m1)
         | (None, w1, m1) \<Rightarrow>
             (case uploadOneFile_inspect retry maxConcurrency w1 m1 of
                (True, mc, w2, m2) \<Rightarrow> (None, w2, m2)
              | (False, mc, w2, m2) \<Rightarrow>
                  uploadOneFile_loop utilClass (Suc retry) mc (lastError m2) w2 m2))
      else
        (case lastErr of
           Some err \<Rightarrow> (Some err, w, meta)
         | None \<Rightarrow> (Some (GoError (''unkown error uploading '' @ realSrcFileName meta)), w, meta)))"
  by pat_completeness auto
termination
  by (relation "measure (\<lambda>(u, retry, mc, le, w, m). defaultMaxRetry - retry)") auto

declare uploadOneFile_loop.simps [simp del]

definition uploadOneFile ::
  "cloudUtil \<Rightarrow> world \<Rightarrow> fileMetadata \<Rightarrow> error option \<times> world \<times> fileMetadata" where
  "uploadOneFile utilClass w meta = uploadOneFile_loop utilClass 0 (parallel meta) None w meta"

subsection \<open>uploadOneFileWithRetry\<close>

text \<open>
  The inner loop (source lines 124 to 138); the first component is \<open>retryInner\<close>.
\<close>

function uploadOneFileWithRetry_inner ::
  "cloudUtil \<Rightarrow> nat \<Rightarrow> world \<Rightarrow> fileMetadata \<Rightarrow> bool \<times> world \<times> fileMetadata" where
  "uploadOneFileWithRetry_inner utilClass j w meta =
     (if j < 10 then
        (let status = resStatus meta
         in case getFileHeader utilClass w meta (dstFileName meta) of
              (r, w1, m1) \<Rightarrow>
                (if resStatus m1 = notFoundFile
                 then uploadOneFileWithRetry_inner utilClass (Suc j) (timeSleep 1 w1) m1
                 else (False, w1, m1\<lparr>resStatus := status\<rparr>)))
      else (True, w, meta))"
  by pat_completeness auto
termination
  by (relation "measure (\<lambda>(u, j, w, m). 10 - j)") auto

declare uploadOneFileWithRetry_inner.simps [simp del]

text \<open>
  The outer loop (source lines 117 to 146); the result is the error returned from inside
  the loop, if any, and \<open>retryOuter\<close>.
\<close>

function uploadOneFileWithRetry_outer ::
  "cloudUtil \<Rightarrow> nat \<Rightarrow> world \<Rightarrow> fileMetadata \<Rightarrow> error option \<times> bool \<times> world \<times> fileMetadata" where
  "uploadOneFileWithRetry_outer utilClass i w meta =
     (if i < 10 then
        (case uploadOneFile utilClass w meta of
           (Some err, w1, m1) \<Rightarrow> (Some err, True, w1, m1)
         | (None, w1, m1) \<Rightarrow>
             (case (if resStatus m1 = uploaded \<or> resStatus m1 = skipped
                    then uploadOneFileWithRetry_inner utilClass 0 w1 m1
                    else (True, w1, m1)) of
                (False, w2, m2) \<Rightarrow> (None, False, w2, m2)
              | (True, w2, m2) \<Rightarrow> uploadOneFileWithRetry_outer utilClass (Suc i) w2 m2))
      else (None, True, w, meta))"
  by pat_completeness auto
termination
  by (relation "measure (\<lambda>(u, i, w, m). 10 - i)") auto

declare uploadOneFileWithRetry_outer.simps [simp del]

definition uploadOneFileWithRetry ::
  "cloudUtil \<Rightarrow> world \<Rightarrow> fileMetadata \<Rightarrow> error option \<times> world \<times> fileMetadata" where
  "uploadOneFileWithRetry utilClass w meta =
     (case uploadOneFileWithRetry_outer utilClass 0 w meta of
        (Some err, retryOuter, w1, m1) \<Rightarrow> (Some err, w1, m1)
      | (None, retryOuter, w1, m1) \<Rightarrow>
          (None, w1, if retryOuter then m1\<lparr>resStatus := errStatus\<rparr> else m1))"

subsection \<open>Exhausted verification\<close>

text \<open>
  What it means that the verification runs out, pass by pass: \<open>probesNotFound n\<close> is the
  state after \<open>n\<close> probes in a row that all left the status not-found (with the pause of
  one second after each), and \<open>verificationExhausted n\<close> is the state after \<open>n\<close> passes
  of the outer loop in each of which \<open>uploadOneFile\<close> returned nil and the object was not
  confirmed: the status was neither uploaded nor skipped, or all ten probes said not-found.
\<close>

fun probesNotFound ::
  "nat \<Rightarrow> cloudUtil \<Rightarrow> world \<Rightarrow> fileMetadata \<Rightarrow> (world \<times> fileMetadata) option" where
  "probesNotFound 0 utilClass w meta = Some (w, meta)"
| "probesNotFound (Suc n) utilClass w meta =
     (case getFileHeader utilClass w meta (dstFileName meta) of
        (r, w1, m1) \<Rightarrow>
          if resStatus m1 = notFoundFile then probesNotFound n utilClass (timeSleep 1 w1) m1
          else None)"

fun verificationExhausted ::
  "nat \<Rightarrow> cloudUtil \<Rightarrow> world \<Rightarrow> fileMetadata \<Rightarrow> (world \<times> fileMetadata) option" where
  "verificationExhausted 0 utilClass w meta = Some (w, meta)"
| "verificationExhausted (Suc n) utilClass w meta =
     (case uploadOneFile utilClass w meta of
        (Some err, w1, m1) \<Rightarrow> None
      | (None, w1, m1) \<Rightarrow>
          (case (if resStatus m1 = uploaded \<or> resStatus m1 = skipped
                 then probesNotFound 10 utilClass w1 m1 else Some (w1, m1)) of
             None \<Rightarrow> None
           | Some (w2, m2) \<Rightarrow> verificationExhausted n utilClass w2 m2))"

section \<open>Sample transfers\<close>

text \<open>
  Concrete inputs at which the theorems below are instantiated: an answer with a given
  status line, an environment whose JSON functions write and read the envelope of
  plain strings (no escapes), a GCS stage and a transfer context.
\<close>

definition sampleResponse :: "int \<Rightarrow> string \<Rightarrow> response" where
  "sampleResponse code line =
     \<lparr>StatusCode = code, Status = line, Header = (\<lambda>k. []), ContentLength = 0, Body = []\<rparr>"

definition quoteJSON :: "string \<Rightarrow> string" where
  "quoteJSON s = CHR 0x22 # s @ [CHR 0x22]"

definition sampleMarshalText :: "encryptionData \<Rightarrow> string" where
  "sampleMarshalText d =
         (''{'' @ quoteJSON ''EncryptionMode'' @ '':'' @ quoteJSON (EncryptionMode d) @ '',''
          @ quoteJSON ''WrappedContentKey'' @ '':{''
          @ quoteJSON ''KeyId'' @ '':'' @ quoteJSON (KeyID (WrappedContentKey d)) @ '',''
          @ quoteJSON ''EncryptionKey'' @ '':'' @ quoteJSON (EncryptionKey (WrappedContentKey d)) @ '',''
          @ quoteJSON ''Algorithm'' @ '':'' @ quoteJSON (Algorithm (WrappedContentKey d)) @ ''},''
          @ quoteJSON ''EncryptionAgent'' @ '':{''
          @ quoteJSON ''Protocol'' @ '':'' @ quoteJSON (Protocol (EncryptionAgent d)) @ '',''
          @ quoteJSON ''EncryptionAlgorithm'' @ '':'' @ quoteJSON (EncryptionAlgorithm (EncryptionAgent d)) @ ''},''
          @ quoteJSON ''ContentEncryptionIV'' @ '':'' @ quoteJSON (ContentEncryptionIV d) @ '',''
          @ quoteJSON ''KeyWrappingMetadata'' @ '':{''
          @ quoteJSON ''EncryptionLibrary'' @ '':'' @ quoteJSON (EncryptionLibrary (KeyWrappingMetadata d)) @ ''}}'')"

definition sampleMarshal :: "encryptionData \<Rightarrow> error + string" where
  "sampleMarshal d = Inr (sampleMarshalText d)"

fun findAfter :: "string \<Rightarrow> string \<Rightarrow> string option" where
  "findAfter p [] = (if p = [] then Some [] else None)"
| "findAfter p (c # cs) =
     (if prefix p (c # cs) then Some (drop (length p) (c # cs)) else findAfter p cs)"

definition jsonStringField :: "string \<Rightarrow> string \<Rightarrow> string option" where
  "jsonStringField k s =
     (case findAfter (quoteJSON k @ '':'' @ [CHR 0x22]) s of
        None \<Rightarrow> None
      | Some r \<Rightarrow> Some (takeWhile (\<lambda>c. c \<noteq> CHR 0x22) r))"

definition sampleUnmarshalData :: "string \<Rightarrow> error option \<times> encryptionData option" where
  "sampleUnmarshalData s =
     (case (jsonStringField ''EncryptionMode'' s, jsonStringField ''KeyId'' s,
            jsonStringField ''EncryptionKey'' s, jsonStringField ''Algorithm'' s,
            jsonStringField ''Protocol'' s, jsonStringField ''EncryptionAlgorithm'' s,
            jsonStringField ''ContentEncryptionIV'' s, jsonStringField ''EncryptionLibrary'' s) of
        (Some m, Some kid, Some k, Some a, Some p, Some ea, Some civ, Some l) \<Rightarrow>
          (None, Some \<lparr>EncryptionMode = m,
                       WrappedContentKey = \<lparr>KeyID = kid, EncryptionKey = k, Algorithm = a\<rparr>,
                       EncryptionAgent = \<lparr>Protocol = p, EncryptionAlgorithm = ea\<rparr>,
                       ContentEncryptionIV = civ,
                       KeyWrappingMetadata = \<lparr>EncryptionLibrary = l\<rparr>\<rparr>)
      | _ \<Rightarrow> (Some (GoError ''invalid character''), None))"

definition sampleEnvWith :: "(request list \<Rightarrow> request \<Rightarrow> error + response) \<Rightarrow> env" where
  "sampleEnvWith d =
     \<lparr>clientDo = d,
      httpNewRequest = (\<lambda>m u. None),
      urlParse = (\<lambda>u. Inr u),
      urlQueryEscape = (\<lambda>p. p),
      osOpen = (\<lambda>f. Inr ''1,2''),
      osOpenFile = (\<lambda>f. None),
      ioCopy = (\<lambda>b. None),
      osStat = (\<lambda>f. Inr 3),
      jsonMarshal = sampleMarshal,
      jsonUnmarshalData = sampleUnmarshalData,
      jsonUnmarshalMeta = (\<lambda>s target. (None, target))\<rparr>"

text \<open>The environment that answers every request with the same response.\<close>

definition sampleEnv :: "response \<Rightarrow> env" where
  "sampleEnv resp = sampleEnvWith (\<lambda>h r. Inr resp)"

text \<open>
  The environment of a store that answers every request with status 200 and gives back
  the metadata headers of the first request it saw, for an object of three bytes.
\<close>

definition echoResponse :: "(string \<rightharpoonup> string) \<Rightarrow> response" where
  "echoResponse hs =
     \<lparr>StatusCode = 200, Status = ''200 OK'',
      Header = (\<lambda>k. if k = ''content-length'' then ''3'' else mapGet hs k),
      ContentLength = 3, Body = ''1,2''\<rparr>"


definition sampleStage :: execResponseStageInfo where
  "sampleStage = \<lparr>Location = ''bucket/stage'', Region = ''us-central1'',
                   UseRegionalURL = False, EndPoint = []\<rparr>"

definition sampleMeta :: fileMetadata where
  "sampleMeta =
     \<lparr>resStatus = errStatus, lastError = None, presignedURL = None,
      stageInfo = sampleStage, client = StringClient ''token'',
      dstFileName = ''data.csv.gz'', srcFileName = ''data.csv.gz'',
      realSrcFileName = ''/tmp/data.csv.gz'',
      dstCompressionType = Some \<lparr>name = ''GZIP''\<rparr>, sha256Digest = ''abc'',
      encryptMeta = None, srcStream = None, realSrcStream = None, dstStream = [],
      options = \<lparr>putCallback = None, putCallbackOutputStream = 0, optShowProgressBar = False,
                 MultiPartThreshold = 0, GetFileToStream = False\<rparr>,
      srcFileSize = 3, uploadSize = 3, dstFileSize = 0, parallel = 4,
      overwrite = True, noSleepingTime = False, lastMaxConcurrency = 0,
      gcsFileHeaderDigest = [], gcsFileHeaderContentLength = 0,
      gcsFileHeaderEncryptionMeta = None\<rparr>"

definition samplePresignedMeta :: fileMetadata where
  "samplePresignedMeta = sampleMeta\<lparr>presignedURL := Some ''https://storage.example/o?sig=1''\<rparr>"


text \<open>The requests that the client builds for the sample contexts.\<close>

definition sampleURL :: string where
  "sampleURL = ''https://storage.googleapis.com/bucket/stage/data.csv.gz''"

definition sampleHead :: request where
  "sampleHead = \<lparr>Method = ''HEAD'', url = sampleURL,
                  headers = [''Authorization'' \<mapsto> ''Bearer token''], body = None\<rparr>"

definition sampleGet :: request where
  "sampleGet = \<lparr>Method = ''GET'', url = sampleURL,
                 headers = [''Authorization'' \<mapsto> ''Bearer token''], body = None\<rparr>"

definition samplePut :: request where
  "samplePut = \<lparr>Method = ''PUT'', url = sampleURL,
                 headers = [httpHeaderContentEncoding \<mapsto> [], gcsMetadataSfcDigest \<mapsto> ''abc'',
                            ''Authorization'' \<mapsto> ''Bearer token''],
                 body = Some ''1,2''\<rparr>"


definition samplePresignedPut :: request where
  "samplePresignedPut =
     \<lparr>Method = ''PUT'', url = ''https://storage.example/o?sig=1'',
      headers = [httpHeaderContentEncoding \<mapsto> [], gcsMetadataSfcDigest \<mapsto> ''abc''],
      body = Some ''1,2''\<rparr>"

text \<open>
  A client whose upload sends nothing and always asks for lower concurrency, the status
  that a throttled provider sets.
\<close>

definition throttledUtil :: cloudUtil where
  "throttledUtil =
     \<lparr>getFileHeader = (\<lambda>w meta fname. ((None, None), w, meta\<lparr>resStatus := notFoundFile\<rparr>)),
      uploadFile = (\<lambda>w dataFile meta mc thr.
                      (None, w, meta\<lparr>resStatus := needRetryWithLowerConcurrency\<rparr>))\<rparr>"

text \<open>
  A client of a store with read-after-write lag: the upload succeeds, and every probe
  says that the object is not there.
\<close>

definition laggingUtil :: cloudUtil where
  "laggingUtil =
     \<lparr>getFileHeader = (\<lambda>w meta fname. ((None, None), w, meta\<lparr>resStatus := notFoundFile\<rparr>)),
      uploadFile = (\<lambda>w dataFile meta mc thr. (None, w, meta\<lparr>resStatus := uploaded\<rparr>))\<rparr>"

definition sampleWorld :: world where
  "sampleWorld = \<lparr>sent = [], slept = []\<rparr>"

section \<open>Facts about the primitives\<close>

text \<open>Once the request is built and answered, each primitive is its interpretation of the answer.\<close>

lemma uploadFile_answered:
  assumes "uploadFile_request e dataFile meta = Inr (req, tok)"
    and "clientDo e (sent w) req = Inr resp"
  shows "snowflakeGcsClient_uploadFile e w dataFile meta mc thr
           = (fst (uploadFile_response e resp tok (headers req) dataFile meta),
              w\<lparr>sent := sent w @ [req]\<rparr>,
              snd (uploadFile_response e resp tok (headers req) dataFile meta))"
  using assms
  by (simp add: snowflakeGcsClient_uploadFile_def clientDoRequest_def split: prod.splits)

lemma getFileHeader_answered:
  assumes "resStatus meta \<noteq> uploaded" and "resStatus meta \<noteq> downloaded"
    and "presignedURL meta = None"
    and "getFileHeader_request e meta fname = Inr req"
    and "getFileHeader_do e req w = (Inr resp, w1)"
  shows "snowflakeGcsClient_getFileHeader e w meta fname
           = (fst (getFileHeader_response e resp meta), w1,
              snd (getFileHeader_response e resp meta))"
  using assms
  by (simp add: snowflakeGcsClient_getFileHeader_def split: prod.splits)

lemma nativeDownloadFile_answered:
  assumes "nativeDownloadFile_request e meta = Inr (req, tok)"
    and "clientDo e (sent w) req = Inr resp"
  shows "snowflakeGcsClient_nativeDownloadFile e w meta dst mc
           = (fst (nativeDownloadFile_response e resp tok dst meta),
              w\<lparr>sent := sent w @ [req]\<rparr>,
              snd (nativeDownloadFile_response e resp tok dst meta))"
  using assms
  by (simp add: snowflakeGcsClient_nativeDownloadFile_def clientDoRequest_def split: prod.splits)

text \<open>The request of an upload does not depend on the status or the last error.\<close>

lemma uploadFile_target_status:
  "uploadFile_target e (meta\<lparr>lastError := le, resStatus := st\<rparr>) = uploadFile_target e meta"
  by (simp add: uploadFile_target_def split: option.splits sum.splits cloudClient.splits)

lemma uploadFile_headers_status:
  "uploadFile_headers e (meta\<lparr>lastError := le, resStatus := st\<rparr>) tok
     = uploadFile_headers e meta tok"
  by (simp add: uploadFile_headers_def uploadFile_contentEncoding_def)

lemma uploadFile_source_status:
  "uploadFile_source e f (meta\<lparr>lastError := le, resStatus := st\<rparr>) = uploadFile_source e f meta"
  by (simp add: uploadFile_source_def split: option.splits)

lemma uploadFile_request_status:
  "uploadFile_request e f (meta\<lparr>lastError := le, resStatus := st\<rparr>) = uploadFile_request e f meta"
  by (simp add: uploadFile_request_def uploadFile_target_status uploadFile_headers_status
        uploadFile_source_status cong: sum.case_cong split: prod.splits)

lemma getFileHeader_request_overwrite:
  "getFileHeader_request e (meta\<lparr>overwrite := b\<rparr>) f = getFileHeader_request e meta f"
  by (simp add: getFileHeader_request_def split: sum.splits)

lemma uploadFile_request_contentEncoding:
  assumes "uploadFile_request e dataFile meta = Inr (req, tok)"
  shows "headers req httpHeaderContentEncoding = Some (uploadFile_contentEncoding meta)"
  using assms
  by (auto simp: uploadFile_request_def uploadFile_headers_def Let_def
        httpHeaderContentEncoding_def gcsMetadataSfcDigest_def gcsMetadataPrefix_def sfcDigest_def
        gcsMetadataEncryptionDataProp_def gcsMetadataMatdescKey_def
        split: sum.splits prod.splits option.splits if_splits)

section \<open>Facts about the sample transfers\<close>

lemma lower_GZIP: "stringsToLower ''GZIP'' = ''gzip''"
  by code_simp

lemma lower_region: "stringsToLower ''us-central1'' = ''us-central1''"
  by code_simp

lemma sample_generateFileURL:
  "generateFileURL (sampleEnvWith d) sampleStage ''data.csv.gz'' = Inr sampleURL"
  by (simp add: generateFileURL_def extractBucketNameAndPath_def getGcsCustomEndpoint_def
        sampleEnvWith_def sampleStage_def lower_region hasSuffix_def gcsRegionMeCentral2_def
        suffix_to_prefix sampleURL_def)

lemma sample_uploadFile_request:
  "uploadFile_request (sampleEnv resp) f sampleMeta = Inr (samplePut, ''token'')"
  by (simp add: uploadFile_request_def uploadFile_target_def uploadFile_headers_def
        uploadFile_source_def uploadFile_contentEncoding_def sample_generateFileURL sampleEnv_def
        sampleMeta_def trimLeftSlash_def lower_GZIP samplePut_def)
     (simp add: sampleEnvWith_def)

lemma sample_presigned_request:
  "uploadFile_request (sampleEnv resp) f samplePresignedMeta = Inr (samplePresignedPut, [])"
  by (simp add: uploadFile_request_def uploadFile_target_def uploadFile_headers_def
        uploadFile_source_def uploadFile_contentEncoding_def sampleEnv_def sampleEnvWith_def
        sampleMeta_def samplePresignedMeta_def lower_GZIP samplePresignedPut_def)

lemma sample_getFileHeader_request:
  "getFileHeader_request (sampleEnv resp) sampleMeta ''data.csv.gz'' = Inr sampleHead"
  by (simp add: getFileHeader_request_def sample_generateFileURL sampleEnv_def
        sampleMeta_def trimLeftSlash_def sampleHead_def)
     (simp add: sampleEnvWith_def)

lemma sample_nativeDownloadFile_request:
  "nativeDownloadFile_request (sampleEnv resp) sampleMeta = Inr (sampleGet, ''token'')"
  by (simp add: nativeDownloadFile_request_def nativeDownloadFile_generated_def
        sample_generateFileURL sampleEnv_def sampleMeta_def trimLeftSlash_def sampleGet_def)
     (simp add: sampleEnvWith_def)

lemma sample_clientDo: "clientDo (sampleEnv resp) h r = Inr resp"
  by (simp add: sampleEnv_def sampleEnvWith_def)

lemma sample_getFileHeader_do:
  "getFileHeader_do (sampleEnv resp) req w = (Inr resp, w\<lparr>sent := sent w @ [req]\<rparr>)"
  by (simp add: getFileHeader_do_def clientDoRequest_def sample_clientDo)

lemma sample_presigned_fields:
  "presignedURL samplePresignedMeta \<noteq> None" "resStatus samplePresignedMeta = errStatus"
  "overwrite samplePresignedMeta" "lastError samplePresignedMeta = None"
  "realSrcFileName samplePresignedMeta = ''/tmp/data.csv.gz''"
  "dstFileName samplePresignedMeta = ''data.csv.gz''"
  "MultiPartThreshold (options samplePresignedMeta) = 0"
  by (simp_all add: samplePresignedMeta_def sampleMeta_def)

lemma sample_fields:
  "presignedURL sampleMeta = None" "resStatus sampleMeta = errStatus"
  "overwrite sampleMeta" "lastError sampleMeta = None"
  "realSrcFileName sampleMeta = ''/tmp/data.csv.gz''"
  "dstFileName sampleMeta = ''data.csv.gz''" "encryptMeta sampleMeta = None"
  "MultiPartThreshold (options sampleMeta) = 0" "parallel sampleMeta = 4"
  "uploadSize sampleMeta = 3" "noSleepingTime sampleMeta = False"
  "dstCompressionType sampleMeta = Some \<lparr>name = ''GZIP''\<rparr>"
  by (simp_all add: sampleMeta_def)

lemma sample_response_fields:
  "StatusCode (sampleResponse c l) = c" "Status (sampleResponse c l) = l"
  by (simp_all add: sampleResponse_def)

lemma echo_content_length: "strconvAtoi ''3'' = Inr 3"
  by (simp add: strconvAtoi_def digitsValue_def isDigit_def)

lemma echo_headers:
  "Header (echoResponse hs) ''content-length'' = ''3''"
  "Header (echoResponse hs) gcsMetadataEncryptionDataProp = mapGet hs gcsMetadataEncryptionDataProp"
  "Header (echoResponse hs) gcsMetadataMatdescKey = mapGet hs gcsMetadataMatdescKey"
  "Header (echoResponse hs) gcsMetadataSfcDigest = mapGet hs gcsMetadataSfcDigest"
  "StatusCode (echoResponse hs) = 200" "ContentLength (echoResponse hs) = 3"
  by (simp_all add: echoResponse_def gcsMetadataEncryptionDataProp_def gcsMetadataMatdescKey_def
        gcsMetadataSfcDigest_def gcsMetadataPrefix_def sfcDigest_def)

lemma sample_probe_404:
  "snowflakeGcsClient_getFileHeader (sampleEnv (sampleResponse 404 ''404 Not Found'')) w
      (sampleMeta\<lparr>overwrite := False\<rparr>) ''data.csv.gz''
   = ((None, Some (GoError ''404 Not Found'')), w\<lparr>sent := sent w @ [sampleHead]\<rparr>,
      sampleMeta\<lparr>overwrite := False, lastError := Some (GoError ''404 Not Found''),
                  resStatus := notFoundFile\<rparr>)"
  by (simp add: snowflakeGcsClient_getFileHeader_def getFileHeader_request_overwrite
        sample_getFileHeader_request sample_getFileHeader_do getFileHeader_response_def
        isRetryStatus_def sample_response_fields sample_fields)

lemma sample_probe_200:
  "snowflakeGcsClient_getFileHeader (sampleEnv (echoResponse Map.empty)) w
      (sampleMeta\<lparr>overwrite := False\<rparr>) ''data.csv.gz''
   = ((Some \<lparr>digest = [], contentLength = 3, encryptionMetadata = None\<rparr>, None),
      w\<lparr>sent := sent w @ [sampleHead]\<rparr>,
      sampleMeta\<lparr>overwrite := False, resStatus := uploaded\<rparr>)"
  by (simp add: snowflakeGcsClient_getFileHeader_def getFileHeader_request_overwrite
        sample_getFileHeader_request sample_getFileHeader_do getFileHeader_response_def
        echo_headers echo_content_length sample_fields mapGet_def)

section \<open>Status codes of the protocol client\<close>

subsection \<open>C4: the answer 404\<close>

text \<open>
  C4 says that a metadata probe answered with 404 sets the status not-found and returns
  no error. The probe does return an error: for the sample context the result carries
  the status line of the answer.
\<close>

theorem probe_404_returns_error:
  "snd (fst (snowflakeGcsClient_getFileHeader (sampleEnv (sampleResponse 404 ''404 Not Found''))
               sampleWorld sampleMeta ''data.csv.gz''))
     = Some (GoError ''404 Not Found'')"
  by (simp add: getFileHeader_answered [OF _ _ _ sample_getFileHeader_request sample_getFileHeader_do]
        sample_fields getFileHeader_response_def isRetryStatus_def sample_response_fields)

text \<open>
  C4, as the code has it. A probe (\<open>getFileHeader\<close>, no presigned URL, no cached header)
  that is answered with 404 sets the status not-found, records the status line as last
  error and returns it with a nil header. \<open>uploadOneFile\<close> does not pass that error on:
  with overwrite off, a probe that leaves the status not-found is followed by the upload,
  whatever error the probe returned. A download (\<open>nativeDownloadFile\<close>) that is answered
  with 404 sets the status not-found and returns the status line as error.
\<close>

theorem not_found_on_probe_and_download:
  shows "(resStatus meta \<noteq> uploaded \<and> resStatus meta \<noteq> downloaded
            \<and> presignedURL meta = None
            \<and> getFileHeader_request e meta fname = Inr req
            \<and> getFileHeader_do e req w = (Inr resp, w1) \<and> StatusCode resp = 404
          \<longrightarrow> snowflakeGcsClient_getFileHeader e w meta fname
                = ((None, Some (GoError (Status resp))), w1,
                   meta\<lparr>lastError := Some (GoError (Status resp)), resStatus := notFoundFile\<rparr>))
       \<and> (\<not> overwrite pmeta
            \<and> getFileHeader utilClass pw pmeta (dstFileName pmeta) = ((None, perr), pw1, pm1)
            \<and> resStatus pm1 = notFoundFile
          \<longrightarrow> uploadOneFile_probe utilClass mc pw pmeta
                = (None, snd (uploadFile utilClass pw1 (realSrcFileName pm1) pm1 mc
                                (MultiPartThreshold (options pm1)))))
       \<and> (nativeDownloadFile_request e dmeta = Inr (dreq, dtok)
            \<and> clientDo e (sent dw) dreq = Inr dresp \<and> StatusCode dresp = 404
          \<longrightarrow> snowflakeGcsClient_nativeDownloadFile e dw dmeta dst dmc
                = (Some (GoError (Status dresp)), dw\<lparr>sent := sent dw @ [dreq]\<rparr>,
                   dmeta\<lparr>lastError := Some (GoError (Status dresp)), resStatus := notFoundFile\<rparr>))"
proof (intro conjI impI)
  assume "resStatus meta \<noteq> uploaded \<and> resStatus meta \<noteq> downloaded
            \<and> presignedURL meta = None
            \<and> getFileHeader_request e meta fname = Inr req
            \<and> getFileHeader_do e req w = (Inr resp, w1) \<and> StatusCode resp = 404"
  then show "snowflakeGcsClient_getFileHeader e w meta fname
                = ((None, Some (GoError (Status resp))), w1,
                   meta\<lparr>lastError := Some (GoError (Status resp)), resStatus := notFoundFile\<rparr>)"
    by (simp add: getFileHeader_answered [of meta e fname req w resp w1]
                  getFileHeader_response_def isRetryStatus_def)
next
  assume "\<not> overwrite pmeta
            \<and> getFileHeader utilClass pw pmeta (dstFileName pmeta) = ((None, perr), pw1, pm1)
            \<and> resStatus pm1 = notFoundFile"
  then show "uploadOneFile_probe utilClass mc pw pmeta
                = (None, snd (uploadFile utilClass pw1 (realSrcFileName pm1) pm1 mc
                                (MultiPartThreshold (options pm1))))"
    by (simp add: uploadOneFile_probe_def uploadOneFile_skip_def split: prod.splits)
next
  assume "nativeDownloadFile_request e dmeta = Inr (dreq, dtok)
            \<and> clientDo e (sent dw) dreq = Inr dresp \<and> StatusCode dresp = 404"
  then show "snowflakeGcsClient_nativeDownloadFile e dw dmeta dst dmc
                = (Some (GoError (Status dresp)), dw\<lparr>sent := sent dw @ [dreq]\<rparr>,
                   dmeta\<lparr>lastError := Some (GoError (Status dresp)), resStatus := notFoundFile\<rparr>)"
    by (simp add: nativeDownloadFile_answered [of e dmeta dreq dtok dw dresp]
                  nativeDownloadFile_response_def isRetryStatus_def)
qed

theorem not_found_on_probe_and_download_witness:
  "resStatus (snd (snd (snowflakeGcsClient_getFileHeader
                          (sampleEnv (sampleResponse 404 ''404 Not Found''))
                          sampleWorld sampleMeta ''data.csv.gz''))) = notFoundFile
   \<and> fst (uploadOneFile_probe (gcsCloudUtil (sampleEnv (sampleResponse 404 ''404 Not Found''))) 4
            sampleWorld (sampleMeta\<lparr>overwrite := False\<rparr>)) = None
   \<and> snowflakeGcsClient_nativeDownloadFile (sampleEnv (sampleResponse 404 ''404 Not Found''))
        sampleWorld sampleMeta ''/tmp/out'' 4
     = (Some (GoError ''404 Not Found''), sampleWorld\<lparr>sent := [sampleGet]\<rparr>,
        sampleMeta\<lparr>lastError := Some (GoError ''404 Not Found''), resStatus := notFoundFile\<rparr>)"
  using not_found_on_probe_and_download
    [where e = "sampleEnv (sampleResponse 404 ''404 Not Found'')" and meta = sampleMeta
       and fname = "''data.csv.gz''" and w = sampleWorld and req = sampleHead
       and resp = "sampleResponse 404 ''404 Not Found''"
       and ?w1.0 = "sampleWorld\<lparr>sent := sent sampleWorld @ [sampleHead]\<rparr>"
       and utilClass = "gcsCloudUtil (sampleEnv (sampleResponse 404 ''404 Not Found''))"
       and pmeta = "sampleMeta\<lparr>overwrite := False\<rparr>" and pw = sampleWorld
       and perr = "Some (GoError ''404 Not Found'')"
       and ?pw1.0 = "sampleWorld\<lparr>sent := sent sampleWorld @ [sampleHead]\<rparr>"
       and ?pm1.0 = "sampleMeta\<lparr>overwrite := False, lastError := Some (GoError ''404 Not Found''),
                                 resStatus := notFoundFile\<rparr>"
       and mc = 4
       and dmeta = sampleMeta and dw = sampleWorld and dtok = "''token''" and dreq = sampleGet
       and dresp = "sampleResponse 404 ''404 Not Found''" and dst = "''/tmp/out''" and dmc = 4]
  by (simp add: sample_getFileHeader_request sample_getFileHeader_do sample_clientDo
        sample_nativeDownloadFile_request sample_fields sample_response_fields
        gcsCloudUtil_def sample_probe_404 sampleWorld_def)

subsection \<open>C5: expired credentials\<close>

text \<open>
  C5 says that every upload without a bearer token that is answered with 400 sets the
  status renew-presigned-url. The code does so only when no last error is recorded: after
  an earlier failure the status stays as it was.
\<close>

theorem presigned_400_after_error_keeps_status:
  "resStatus (snd (snd (snowflakeGcsClient_uploadFile
        (sampleEnv (sampleResponse 400 ''400 Bad Request'')) sampleWorld ''/tmp/data.csv.gz''
        (samplePresignedMeta\<lparr>lastError := Some (GoError ''503 Service Unavailable''),
                              resStatus := needRetry\<rparr>) 4 0)))
     = needRetry
   \<and> headers (hd (sent (fst (snd (snowflakeGcsClient_uploadFile
        (sampleEnv (sampleResponse 400 ''400 Bad Request'')) sampleWorld ''/tmp/data.csv.gz''
        (samplePresignedMeta\<lparr>lastError := Some (GoError ''503 Service Unavailable''),
                              resStatus := needRetry\<rparr>) 4 0))))) ''Authorization''
     = None"
  by (simp add: uploadFile_answered [OF _ sample_clientDo] uploadFile_request_status
        sample_presigned_request uploadFile_response_def isRetryStatus_def isTokenExpired_def
        sample_response_fields sampleWorld_def samplePresignedPut_def
        httpHeaderContentEncoding_def gcsMetadataSfcDigest_def gcsMetadataPrefix_def sfcDigest_def)

text \<open>
  C5, as the code has it. An upload with a bearer token that is answered with 401 sets the
  status renew-token and returns the status line as error; so does a probe that is
  answered with 401. An upload without a bearer token that is answered with 400, on a
  context with no last error recorded, sets the status renew-presigned-url and returns the
  status line as error.
\<close>

theorem renew_signals:
  shows "(uploadFile_request e dataFile meta = Inr (req, tok) \<and> tok \<noteq> []
            \<and> clientDo e (sent w) req = Inr resp \<and> StatusCode resp = 401
          \<longrightarrow> snowflakeGcsClient_uploadFile e w dataFile meta mc thr
                = (Some (GoError (Status resp)), w\<lparr>sent := sent w @ [req]\<rparr>,
                   meta\<lparr>lastError := Some (GoError (Status resp)), resStatus := renewToken\<rparr>))
       \<and> (resStatus hmeta \<noteq> uploaded \<and> resStatus hmeta \<noteq> downloaded
            \<and> presignedURL hmeta = None
            \<and> getFileHeader_request he hmeta fname = Inr hreq
            \<and> getFileHeader_do he hreq hw = (Inr hresp, hw1) \<and> StatusCode hresp = 401
          \<longrightarrow> snowflakeGcsClient_getFileHeader he hw hmeta fname
                = ((None, Some (GoError (Status hresp))), hw1,
                   hmeta\<lparr>lastError := Some (GoError (Status hresp)), resStatus := renewToken\<rparr>))
       \<and> (uploadFile_request pe pdataFile pmeta = Inr (preq, [])
            \<and> clientDo pe (sent pw) preq = Inr presp \<and> StatusCode presp = 400
            \<and> lastError pmeta = None
          \<longrightarrow> snowflakeGcsClient_uploadFile pe pw pdataFile pmeta pmc pthr
                = (Some (GoError (Status presp)), pw\<lparr>sent := sent pw @ [preq]\<rparr>,
                   pmeta\<lparr>lastError := Some (GoError (Status presp)),
                         resStatus := renewPresignedURL\<rparr>))"
proof (intro conjI impI)
  assume h: "uploadFile_request e dataFile meta = Inr (req, tok) \<and> tok \<noteq> []
            \<and> clientDo e (sent w) req = Inr resp \<and> StatusCode resp = 401"
  then show "snowflakeGcsClient_uploadFile e w dataFile meta mc thr
                = (Some (GoError (Status resp)), w\<lparr>sent := sent w @ [req]\<rparr>,
                   meta\<lparr>lastError := Some (GoError (Status resp)), resStatus := renewToken\<rparr>)"
    by (simp add: uploadFile_answered [of e dataFile meta req tok w resp]
                  uploadFile_response_def isRetryStatus_def isTokenExpired_def)
next
  assume h: "resStatus hmeta \<noteq> uploaded \<and> resStatus hmeta \<noteq> downloaded
            \<and> presignedURL hmeta = None
            \<and> getFileHeader_request he hmeta fname = Inr hreq
            \<and> getFileHeader_do he hreq hw = (Inr hresp, hw1) \<and> StatusCode hresp = 401"
  then show "snowflakeGcsClient_getFileHeader he hw hmeta fname
                = ((None, Some (GoError (Status hresp))), hw1,
                   hmeta\<lparr>lastError := Some (GoError (Status hresp)), resStatus := renewToken\<rparr>)"
    by (simp add: getFileHeader_answered [of hmeta he fname hreq hw hresp hw1]
                  getFileHeader_response_def isRetryStatus_def isTokenExpired_def)
next
  assume h: "uploadFile_request pe pdataFile pmeta = Inr (preq, [])
            \<and> clientDo pe (sent pw) preq = Inr presp \<and> StatusCode presp = 400
            \<and> lastError pmeta = None"
  then show "snowflakeGcsClient_uploadFile pe pw pdataFile pmeta pmc pthr
                = (Some (GoError (Status presp)), pw\<lparr>sent := sent pw @ [preq]\<rparr>,
                   pmeta\<lparr>lastError := Some (GoError (Status presp)),
                         resStatus := renewPresignedURL\<rparr>)"
    by (simp add: uploadFile_answered [of pe pdataFile pmeta preq "[]" pw presp]
                  uploadFile_response_def isRetryStatus_def isTokenExpired_def)
qed

theorem renew_signals_witness:
  "snowflakeGcsClient_uploadFile (sampleEnv (sampleResponse 401 ''401 Unauthorized''))
       sampleWorld ''/tmp/data.csv.gz'' sampleMeta 4 0
     = (Some (GoError ''401 Unauthorized''), sampleWorld\<lparr>sent := [samplePut]\<rparr>,
        sampleMeta\<lparr>lastError := Some (GoError ''401 Unauthorized''), resStatus := renewToken\<rparr>)
   \<and> snowflakeGcsClient_getFileHeader (sampleEnv (sampleResponse 401 ''401 Unauthorized''))
       sampleWorld sampleMeta ''data.csv.gz''
     = ((None, Some (GoError ''401 Unauthorized'')), sampleWorld\<lparr>sent := [sampleHead]\<rparr>,
        sampleMeta\<lparr>lastError := Some (GoError ''401 Unauthorized''), resStatus := renewToken\<rparr>)
   \<and> snowflakeGcsClient_uploadFile (sampleEnv (sampleResponse 400 ''400 Bad Request''))
       sampleWorld ''/tmp/data.csv.gz'' samplePresignedMeta 4 0
     = (Some (GoError ''400 Bad Request''), sampleWorld\<lparr>sent := [samplePresignedPut]\<rparr>,
        samplePresignedMeta\<lparr>lastError := Some (GoError ''400 Bad Request''),
                             resStatus := renewPresignedURL\<rparr>)"
  using renew_signals
    [where e = "sampleEnv (sampleResponse 401 ''401 Unauthorized'')" and meta = sampleMeta
       and dataFile = "''/tmp/data.csv.gz''" and w = sampleWorld and req = samplePut
       and tok = "''token''" and resp = "sampleResponse 401 ''401 Unauthorized''"
       and mc = 4 and thr = 0
       and he = "sampleEnv (sampleResponse 401 ''401 Unauthorized'')" and hmeta = sampleMeta
       and fname = "''data.csv.gz''" and hw = sampleWorld and hreq = sampleHead
       and hresp = "sampleResponse 401 ''401 Unauthorized''"
       and ?hw1.0 = "sampleWorld\<lparr>sent := sent sampleWorld @ [sampleHead]\<rparr>"
       and pe = "sampleEnv (sampleResponse 400 ''400 Bad Request'')"
       and pmeta = samplePresignedMeta and pdataFile = "''/tmp/data.csv.gz''"
       and pw = sampleWorld and preq = samplePresignedPut
       and presp = "sampleResponse 400 ''400 Bad Request''" and pmc = 4 and pthr = 0]
  by (simp add: sample_uploadFile_request sample_presigned_request sample_getFileHeader_request
        sample_getFileHeader_do sample_clientDo sample_fields sample_presigned_fields
        sample_response_fields sampleWorld_def)

subsection \<open>C9: the probe under a presigned URL\<close>

text \<open>
  C9: when the context has a presigned URL and its status is neither uploaded nor
  downloaded, \<open>getFileHeader\<close> sends no request (the world is unchanged), sets the status
  not-found and returns a nil header and a nil error.
\<close>

theorem getFileHeader_presigned_not_found:
  assumes "presignedURL meta \<noteq> None"
    and "resStatus meta \<noteq> uploaded" and "resStatus meta \<noteq> downloaded"
  shows "snowflakeGcsClient_getFileHeader e w meta fname
           = ((None, None), w, meta\<lparr>resStatus := notFoundFile\<rparr>)"
  using assms by (simp add: snowflakeGcsClient_getFileHeader_def)

theorem getFileHeader_presigned_not_found_witness:
  "snowflakeGcsClient_getFileHeader (sampleEnv (sampleResponse 200 ''200 OK'')) sampleWorld
      samplePresignedMeta ''data.csv.gz''
    = ((None, None), sampleWorld, samplePresignedMeta\<lparr>resStatus := notFoundFile\<rparr>)"
  using getFileHeader_presigned_not_found
          [of samplePresignedMeta "sampleEnv (sampleResponse 200 ''200 OK'')" sampleWorld
              "''data.csv.gz''"]
  by (simp add: sample_presigned_fields)

section \<open>Request headers\<close>

subsection \<open>C8: the content-encoding header\<close>

text \<open>
  C8 says that for the compression format gzip the request carries no content-encoding
  header. The request of the sample context, whose format is \<open>GZIP\<close>, carries the header
  with the empty string as value.
\<close>

theorem gzip_header_present_and_empty:
  "headers (hd (sent (fst (snd (snowflakeGcsClient_uploadFile
        (sampleEnv (sampleResponse 200 ''200 OK'')) sampleWorld ''/tmp/data.csv.gz''
        sampleMeta 4 0))))) httpHeaderContentEncoding
     = Some []"
  by (simp add: uploadFile_answered [OF sample_uploadFile_request sample_clientDo]
        sampleWorld_def samplePut_def httpHeaderContentEncoding_def gcsMetadataSfcDigest_def
        gcsMetadataPrefix_def sfcDigest_def)

text \<open>
  C8, as the code has it: the request of an upload with a compression format always
  carries the content-encoding header; its value is the empty string when the lower-cased
  name of the format is \<open>gzip\<close>, and the lower-cased name otherwise.
\<close>

theorem content_encoding_header:
  assumes "uploadFile_request e dataFile meta = Inr (req, tok)"
    and "dstCompressionType meta = Some ct"
  shows "headers req httpHeaderContentEncoding
           = Some (if stringsToLower (name ct) = ''gzip'' then [] else stringsToLower (name ct))"
  using uploadFile_request_contentEncoding [OF assms(1)] assms(2)
  by (simp add: uploadFile_contentEncoding_def)

theorem content_encoding_header_witness:
  "headers samplePut httpHeaderContentEncoding = Some []"
  using content_encoding_header
    [of "sampleEnv (sampleResponse 200 ''200 OK'')" "''/tmp/data.csv.gz''" sampleMeta samplePut
        "''token''" "\<lparr>name = ''GZIP''\<rparr>"]
  by (simp add: sample_uploadFile_request sample_fields lower_GZIP)

section \<open>The upload loop\<close>

text \<open>The loop function, one step at a time.\<close>

lemma uploadOneFile_loop_step:
  "retry < 5 \<Longrightarrow>
   uploadOneFile_loop utilClass retry maxConcurrency lastErr w meta =
     (case uploadOneFile_attempt utilClass maxConcurrency w meta of
        (Some r, w1, m1) \<Rightarrow> (r, w1, m1)
      | (None, w1, m1) \<Rightarrow>
          (case uploadOneFile_inspect retry maxConcurrency w1 m1 of
             (True, mc, w2, m2) \<Rightarrow> (None, w2, m2)
           | (False, mc, w2, m2) \<Rightarrow>
               uploadOneFile_loop utilClass (Suc retry) mc (lastError m2) w2 m2))"
  by (subst uploadOneFile_loop.simps) (simp add: defaultMaxRetry_def)

lemma uploadOneFile_loop_end:
  "5 \<le> retry \<Longrightarrow>
   uploadOneFile_loop utilClass retry maxConcurrency lastErr w meta =
     (Some (case lastErr of Some err \<Rightarrow> err
            | None \<Rightarrow> GoError (''unkown error uploading '' @ realSrcFileName meta)), w, meta)"
  by (subst uploadOneFile_loop.simps) (simp add: defaultMaxRetry_def split: option.splits)


lemma uploadOneFile_attempt_overwrite:
  assumes "overwrite meta"
  shows "uploadOneFile_attempt utilClass mc w meta
           = (None, snd (uploadFile utilClass w (realSrcFileName meta) meta mc
                           (MultiPartThreshold (options meta))))"
  using assms by (simp add: uploadOneFile_attempt_def uploadOneFile_probe_def split: prod.splits)


subsection \<open>C10: the status alone decides success\<close>




subsection \<open>C3: an object that is already there is skipped\<close>

text \<open>A header returned by the GCS probe never comes with an error.\<close>

lemma getFileHeader_header_no_error:
  assumes "snowflakeGcsClient_getFileHeader e w meta fname = ((Some h, err), w1, m1)"
  shows "err = None"
  using assms
  by (auto simp: snowflakeGcsClient_getFileHeader_def getFileHeader_response_def Let_def
        split: if_splits sum.splits prod.splits)

text \<open>
  C3: with overwrite off, when the probe of the GCS client returns a header and leaves the
  status uploaded, \<open>uploadOneFile\<close> sets the destination size to 0 and the status to
  skipped and returns nil, in the state the probe left. The upload primitive is not
  invoked: the result is the same for every upload primitive \<open>up\<close> put in its place.
\<close>

theorem skip_when_already_uploaded:
  assumes "\<not> overwrite meta"
    and "snowflakeGcsClient_getFileHeader e w meta (dstFileName meta) = ((Some h, err), w1, m1)"
    and "resStatus m1 = uploaded"
  shows "uploadOneFile \<lparr>getFileHeader = snowflakeGcsClient_getFileHeader e, uploadFile = up\<rparr>
           w meta
         = (None, w1, m1\<lparr>dstFileSize := 0, resStatus := skipped\<rparr>)"
proof -
  have "err = None"
    using assms(2) by (rule getFileHeader_header_no_error)
  with assms have "uploadOneFile_attempt
            \<lparr>getFileHeader = snowflakeGcsClient_getFileHeader e, uploadFile = up\<rparr>
            (parallel meta) w meta
          = (Some None, w1, m1\<lparr>dstFileSize := 0, resStatus := skipped\<rparr>)"
    by (simp add: uploadOneFile_attempt_def uploadOneFile_probe_def uploadOneFile_skip_def)
  then show ?thesis
    by (simp add: uploadOneFile_def uploadOneFile_loop_step)
qed

theorem skip_when_already_uploaded_witness:
  "uploadOneFile (gcsCloudUtil (sampleEnv (echoResponse Map.empty))) sampleWorld
      (sampleMeta\<lparr>overwrite := False\<rparr>)
     = (None, \<lparr>sent = [sampleHead], slept = []\<rparr>,
        sampleMeta\<lparr>overwrite := False, resStatus := skipped, dstFileSize := 0\<rparr>)"
  using skip_when_already_uploaded
    [where meta = "sampleMeta\<lparr>overwrite := False\<rparr>"
       and e = "sampleEnv (echoResponse Map.empty)" and w = sampleWorld
       and h = "\<lparr>digest = [], contentLength = 3, encryptionMetadata = None\<rparr>"
       and err = None and ?w1.0 = "sampleWorld\<lparr>sent := sent sampleWorld @ [sampleHead]\<rparr>"
       and ?m1.0 = "sampleMeta\<lparr>overwrite := False, resStatus := uploaded\<rparr>"
       and up = "snowflakeGcsClient_uploadFile (sampleEnv (echoResponse Map.empty))"]
  by (simp add: sample_probe_200 sample_fields gcsCloudUtil_def sampleWorld_def)

subsection \<open>C1: transient answers are retried\<close>

text \<open>
  The pause after attempt \<open>retry\<close>, a retried step of the loop, the answer of the GCS
  client to a transient status, and a run in which every upload is answered with a
  transient status.
\<close>

lemma sleepingTime_values:
  "retry < 5 \<Longrightarrow> sleepingTime retry = of_nat (min (2 ^ retry) 16)"
proof -
  assume "retry < 5"
  then consider "retry = 0" | "retry = 1" | "retry = 2" | "retry = 3" | "retry = 4"
    by linarith
  then show ?thesis
    by cases (simp_all add: sleepingTime_def intMin_def)
qed

lemma uploadOneFile_retry:
  assumes "retry < 5" and "uploadOneFile_attempt utilClass mc w meta = (None, w1, m1)"
    and "resStatus m1 = needRetry"
  shows "uploadOneFile_loop utilClass retry mc lastErr w meta
           = uploadOneFile_loop utilClass (Suc retry) mc (lastError m1)
               (if noSleepingTime m1 then w1
                else w1\<lparr>slept := slept w1 @ [of_nat (min (2 ^ retry) 16)]\<rparr>) m1"
  using assms
  by (simp add: uploadOneFile_loop_step uploadOneFile_inspect_def uploadOneFile_sleep_def
        timeSleep_def sleepingTime_values)

lemma uploadFile_retry_status:
  assumes "uploadFile_request e dataFile meta = Inr (req, tok)"
    and "clientDo e (sent w) req = Inr resp"
    and "isRetryStatus (StatusCode resp)"
  shows "snowflakeGcsClient_uploadFile e w dataFile meta mc thr
           = (Some (GoError (Status resp)), w\<lparr>sent := sent w @ [req]\<rparr>,
              meta\<lparr>lastError := Some (GoError (Status resp)), resStatus := needRetry\<rparr>)"
  using assms
  by (auto simp: uploadFile_answered [of e dataFile meta req tok w resp]
                uploadFile_response_def isRetryStatus_def)

lemma gcs_retry_run:
  assumes ov: "overwrite meta"
    and rq: "uploadFile_request e (realSrcFileName meta) meta = Inr (req, tok)"
    and tr: "\<forall>h. \<exists>r. clientDo e h req = Inr r \<and> isRetryStatus (StatusCode r)"
  shows "retry + k = 5 \<Longrightarrow>
         fst (uploadOneFile_loop (gcsCloudUtil e) retry mc
                lerr w (meta\<lparr>lastError := le, resStatus := st\<rparr>)) \<noteq> None
       \<and> sent (fst (snd (uploadOneFile_loop (gcsCloudUtil e) retry mc
                lerr w (meta\<lparr>lastError := le, resStatus := st\<rparr>))))
           = sent w @ replicate k req
       \<and> slept (fst (snd (uploadOneFile_loop (gcsCloudUtil e) retry mc
                lerr w (meta\<lparr>lastError := le, resStatus := st\<rparr>))))
           = slept w @ (if noSleepingTime meta then []
                        else map (\<lambda>i. of_nat (min (2 ^ i) 16)) [retry..<5])
       \<and> (0 < k \<longrightarrow>
            resStatus (snd (snd (uploadOneFile_loop (gcsCloudUtil e) retry mc
                lerr w (meta\<lparr>lastError := le, resStatus := st\<rparr>)))) = needRetry
          \<and> lastError (snd (snd (uploadOneFile_loop (gcsCloudUtil e) retry mc
                lerr w (meta\<lparr>lastError := le, resStatus := st\<rparr>))))
            = fst (uploadOneFile_loop (gcsCloudUtil e) retry mc
                lerr w (meta\<lparr>lastError := le, resStatus := st\<rparr>)))"
proof (induction k arbitrary: retry lerr w le st)
  case 0
  then show ?case by (simp add: uploadOneFile_loop_end)
next
  case (Suc k)
  let ?m = "meta\<lparr>lastError := le, resStatus := st\<rparr>"
  from Suc.prems have lt: "retry < 5" by simp
  obtain r where r: "clientDo e (sent w) req = Inr r" "isRetryStatus (StatusCode r)"
    using tr by blast
  have rq': "uploadFile_request e (realSrcFileName ?m) ?m = Inr (req, tok)"
    using rq by (simp add: uploadFile_request_status)
  let ?w1 = "w\<lparr>sent := sent w @ [req]\<rparr>"
  let ?m1 = "meta\<lparr>lastError := Some (GoError (Status r)), resStatus := needRetry\<rparr>"
  have att: "uploadOneFile_attempt (gcsCloudUtil e) mc w ?m = (None, ?w1, ?m1)"
    using ov uploadFile_retry_status [OF rq' r, of mc "MultiPartThreshold (options ?m)"]
    by (simp add: uploadOneFile_attempt_overwrite gcsCloudUtil_def)
  let ?w2 = "if noSleepingTime ?m1 then ?w1
             else ?w1\<lparr>slept := slept ?w1 @ [of_nat (min (2 ^ retry) 16)]\<rparr>"
  have step: "uploadOneFile_loop (gcsCloudUtil e) retry mc lerr w ?m
                = uploadOneFile_loop (gcsCloudUtil e) (Suc retry) mc (Some (GoError (Status r))) ?w2 ?m1"
    using uploadOneFile_retry [OF lt att, of lerr] by simp
  have ih: "Suc retry + k = 5" using Suc.prems by simp
  note IH = Suc.IH [OF ih, where lerr = "Some (GoError (Status r))" and w = ?w2
                       and le = "Some (GoError (Status r))" and st = needRetry]
  have up: "[retry..<5] = retry # [Suc retry..<5]"
    using lt by (simp add: upt_conv_Cons)
  show ?case
  proof (cases k)
    case 0
    with Suc.prems have "retry = 4" by simp
    with 0 step show ?thesis
      by (simp add: uploadOneFile_loop_end)
  next
    case (Suc k')
    with IH step up show ?thesis
      by (simp add: replicate_app_Cons_same)
  qed
qed

text \<open>
  C1: an upload that is answered with 403, 408, 429, 500 or 503 sets the status
  needs-retry and the last error (the status line), which \<open>uploadFile\<close> returns. When an
  attempt of \<open>uploadOneFile\<close> ends with the status needs-retry, the loop sleeps
  \<open>min (2 ^ retry) 16\<close> seconds unless the no-sleep flag is set and goes on with the next
  attempt at the same concurrency. There is no attempt with index 5: the loop returns
  the retained error there. So with overwrite on and every upload answered with a
  transient status, the GCS client sends exactly 5 requests, the pauses are 1, 2, 4, 8 and
  16 seconds (the last one after the fifth attempt), and the call returns the last error.
\<close>

theorem retry_on_transient_status:
  "(uploadFile_request e dataFile meta = Inr (req, tok) \<and> clientDo e (sent w) req = Inr resp
      \<and> StatusCode resp \<in> {403, 408, 429, 500, 503}
    \<longrightarrow> snowflakeGcsClient_uploadFile e w dataFile meta mc thr
          = (Some (GoError (Status resp)), w\<lparr>sent := sent w @ [req]\<rparr>,
             meta\<lparr>lastError := Some (GoError (Status resp)), resStatus := needRetry\<rparr>))
 \<and> (retry < 5 \<and> uploadOneFile_attempt utilClass lmc lw lmeta = (None, lw1, lm1)
      \<and> resStatus lm1 = needRetry
    \<longrightarrow> uploadOneFile_loop utilClass retry lmc lerr lw lmeta
          = uploadOneFile_loop utilClass (Suc retry) lmc (lastError lm1)
              (if noSleepingTime lm1 then lw1
               else lw1\<lparr>slept := slept lw1 @ [of_nat (min (2 ^ retry) 16)]\<rparr>) lm1)
 \<and> uploadOneFile_loop xutil 5 xmc xerr xw xmeta
      = (Some (case xerr of Some err \<Rightarrow> err
               | None \<Rightarrow> GoError (''unkown error uploading '' @ realSrcFileName xmeta)),
         xw, xmeta)
 \<and> (overwrite ometa \<and> uploadFile_request oe (realSrcFileName ometa) ometa = Inr (oreq, otok)
      \<and> (\<forall>h. \<exists>r. clientDo oe h oreq = Inr r \<and> StatusCode r \<in> {403, 408, 429, 500, 503})
    \<longrightarrow> fst (uploadOneFile (gcsCloudUtil oe) ow ometa) \<noteq> None
        \<and> fst (uploadOneFile (gcsCloudUtil oe) ow ometa)
            = lastError (snd (snd (uploadOneFile (gcsCloudUtil oe) ow ometa)))
        \<and> resStatus (snd (snd (uploadOneFile (gcsCloudUtil oe) ow ometa))) = needRetry
        \<and> sent (fst (snd (uploadOneFile (gcsCloudUtil oe) ow ometa)))
            = sent ow @ replicate 5 oreq
        \<and> slept (fst (snd (uploadOneFile (gcsCloudUtil oe) ow ometa)))
            = slept ow @ (if noSleepingTime ometa then [] else [1, 2, 4, 8, 16]))"
proof (intro conjI impI)
  assume "uploadFile_request e dataFile meta = Inr (req, tok) \<and> clientDo e (sent w) req = Inr resp
      \<and> StatusCode resp \<in> {403, 408, 429, 500, 503}"
  then show "snowflakeGcsClient_uploadFile e w dataFile meta mc thr
          = (Some (GoError (Status resp)), w\<lparr>sent := sent w @ [req]\<rparr>,
             meta\<lparr>lastError := Some (GoError (Status resp)), resStatus := needRetry\<rparr>)"
    by (intro uploadFile_retry_status) (auto simp: isRetryStatus_def)
next
  assume "retry < 5 \<and> uploadOneFile_attempt utilClass lmc lw lmeta = (None, lw1, lm1)
      \<and> resStatus lm1 = needRetry"
  then show "uploadOneFile_loop utilClass retry lmc lerr lw lmeta
          = uploadOneFile_loop utilClass (Suc retry) lmc (lastError lm1)
              (if noSleepingTime lm1 then lw1
               else lw1\<lparr>slept := slept lw1 @ [of_nat (min (2 ^ retry) 16)]\<rparr>) lm1"
    using uploadOneFile_retry by blast
next
  show "uploadOneFile_loop xutil 5 xmc xerr xw xmeta
      = (Some (case xerr of Some err \<Rightarrow> err
               | None \<Rightarrow> GoError (''unkown error uploading '' @ realSrcFileName xmeta)),
         xw, xmeta)"
    by (simp add: uploadOneFile_loop_end)
next
  assume h: "overwrite ometa \<and> uploadFile_request oe (realSrcFileName ometa) ometa = Inr (oreq, otok)
      \<and> (\<forall>h. \<exists>r. clientDo oe h oreq = Inr r \<and> StatusCode r \<in> {403, 408, 429, 500, 503})"
  then have tr: "\<forall>h. \<exists>r. clientDo oe h oreq = Inr r \<and> isRetryStatus (StatusCode r)"
    by (simp add: isRetryStatus_def)
  have five: "map (\<lambda>i. of_nat (min (2 ^ i) 16)) [0..<5] = [1, 2, 4, 8, 16 :: goInt]"
    by (simp add: upt_rec)
  have same: "ometa\<lparr>lastError := lastError ometa, resStatus := resStatus ometa\<rparr> = ometa"
    by simp
  note run = gcs_retry_run [where retry = 0 and k = 5 and mc = "parallel ometa" and lerr = None
               and w = ow and le = "lastError ometa" and st = "resStatus ometa",
               OF conjunct1 [OF h] conjunct1 [OF conjunct2 [OF h]] tr, unfolded same five,
               folded uploadOneFile_def]
  from run show "fst (uploadOneFile (gcsCloudUtil oe) ow ometa) \<noteq> None" by simp
  from run show "fst (uploadOneFile (gcsCloudUtil oe) ow ometa)
            = lastError (snd (snd (uploadOneFile (gcsCloudUtil oe) ow ometa)))" by simp
  from run show "resStatus (snd (snd (uploadOneFile (gcsCloudUtil oe) ow ometa))) = needRetry"
    by simp
  from run show "sent (fst (snd (uploadOneFile (gcsCloudUtil oe) ow ometa)))
            = sent ow @ replicate 5 oreq" by simp
  from run show "slept (fst (snd (uploadOneFile (gcsCloudUtil oe) ow ometa)))
            = slept ow @ (if noSleepingTime ometa then [] else [1, 2, 4, 8, 16])" by simp
qed

lemma sample_upload_503:
  "snowflakeGcsClient_uploadFile (sampleEnv (sampleResponse 503 ''503 Service Unavailable''))
      w f sampleMeta mc thr
   = (Some (GoError ''503 Service Unavailable''), w\<lparr>sent := sent w @ [samplePut]\<rparr>,
      sampleMeta\<lparr>lastError := Some (GoError ''503 Service Unavailable''),
                  resStatus := needRetry\<rparr>)"
  by (simp add: uploadFile_retry_status [OF sample_uploadFile_request sample_clientDo]
        isRetryStatus_def sample_response_fields)

lemma replicate_five: "replicate 5 x = [x, x, x, x, x]"
  by (simp add: numeral_eq_Suc)

theorem retry_on_transient_status_witness:
  "snowflakeGcsClient_uploadFile (sampleEnv (sampleResponse 503 ''503 Service Unavailable''))
      sampleWorld ''/tmp/data.csv.gz'' sampleMeta 4 0
   = (Some (GoError ''503 Service Unavailable''), sampleWorld\<lparr>sent := [samplePut]\<rparr>,
      sampleMeta\<lparr>lastError := Some (GoError ''503 Service Unavailable''),
                  resStatus := needRetry\<rparr>)
 \<and> uploadOneFile_loop (gcsCloudUtil (sampleEnv (sampleResponse 503 ''503 Service Unavailable'')))
      0 4 None sampleWorld sampleMeta
   = uploadOneFile_loop (gcsCloudUtil (sampleEnv (sampleResponse 503 ''503 Service Unavailable'')))
      1 4 (Some (GoError ''503 Service Unavailable''))
      \<lparr>sent = [samplePut], slept = [1]\<rparr>
      (sampleMeta\<lparr>lastError := Some (GoError ''503 Service Unavailable''),
                  resStatus := needRetry\<rparr>)
 \<and> resStatus (snd (snd (uploadOneFile
          (gcsCloudUtil (sampleEnv (sampleResponse 503 ''503 Service Unavailable'')))
          sampleWorld sampleMeta)))
   = needRetry
 \<and> sent (fst (snd (uploadOneFile
          (gcsCloudUtil (sampleEnv (sampleResponse 503 ''503 Service Unavailable'')))
          sampleWorld sampleMeta)))
   = [samplePut, samplePut, samplePut, samplePut, samplePut]
 \<and> slept (fst (snd (uploadOneFile
          (gcsCloudUtil (sampleEnv (sampleResponse 503 ''503 Service Unavailable'')))
          sampleWorld sampleMeta)))
   = [1, 2, 4, 8, 16]"
  using retry_on_transient_status
    [where e = "sampleEnv (sampleResponse 503 ''503 Service Unavailable'')"
       and dataFile = "''/tmp/data.csv.gz''" and meta = sampleMeta and req = samplePut
       and tok = "''token''" and w = sampleWorld
       and resp = "sampleResponse 503 ''503 Service Unavailable''" and mc = 4 and thr = 0
       and retry = 0
       and utilClass = "gcsCloudUtil (sampleEnv (sampleResponse 503 ''503 Service Unavailable''))"
       and lmc = 4 and lw = sampleWorld and lmeta = sampleMeta and lerr = None
       and ?lw1.0 = "sampleWorld\<lparr>sent := [samplePut]\<rparr>"
       and ?lm1.0 = "sampleMeta\<lparr>lastError := Some (GoError ''503 Service Unavailable''),
                                 resStatus := needRetry\<rparr>"
       and oe = "sampleEnv (sampleResponse 503 ''503 Service Unavailable'')"
       and ometa = sampleMeta and oreq = samplePut and otok = "''token''" and ow = sampleWorld
       and xutil = "gcsCloudUtil (sampleEnv (sampleResponse 503 ''503 Service Unavailable''))"
       and xmc = 4 and xerr = "Some (GoError ''503 Service Unavailable'')"
       and xw = sampleWorld and xmeta = sampleMeta]
  by (simp add: sample_uploadFile_request sample_clientDo sample_response_fields sample_fields
        uploadOneFile_attempt_overwrite gcsCloudUtil_def sample_upload_503 sampleWorld_def
        replicate_five)

subsection \<open>C2: lower concurrency\<close>

text \<open>
  The reduced concurrency read as an integer, when no product overflows, and the step of
  the loop that computes it.
\<close>

lemma sint_small_nat: "r < 5 \<Longrightarrow> sint (of_nat r :: goInt) = int r"
proof -
  assume "r < 5"
  then consider "r = 0" | "r = 1" | "r = 2" | "r = 3" | "r = 4"
    by linarith
  then show ?thesis by cases simp_all
qed

lemma sdiv_five_bounds:
  fixes x :: int
  shows "0 \<le> x \<Longrightarrow> x sdiv 5 = x div 5" and "x < 0 \<Longrightarrow> x sdiv 5 = - ((- x) div 5)"
  by (simp_all add: signed_divide_int_def sgn_if)

lemma lowerConcurrency_sint:
  assumes lo: "- (2 ^ 61) \<le> sint p" and hi: "sint p < 2 ^ 61" and r: "r < 5"
  shows "sint (uploadOneFile_lowerConcurrency p r) = max 1 (sint p - (int r * sint p) sdiv 5)"
proof -
  let ?P = "sint p"
  have lo': "- 2305843009213693952 \<le> ?P" and hi': "?P < 2305843009213693952"
    using lo hi by simp_all
  have rb: "0 \<le> int r" "int r \<le> 4" using r by simp_all
  have prod_lo: "- 9223372036854775808 \<le> int r * ?P"
  proof (cases "0 \<le> ?P")
    case True
    then have "0 \<le> int r * ?P" by simp
    then show ?thesis by linarith
  next
    case False
    then have "int r * ?P \<ge> 4 * ?P" using rb by (simp add: mult_right_mono_neg)
    with lo' show ?thesis by linarith
  qed
  have prod_hi: "int r * ?P < 9223372036854775808"
  proof (cases "0 \<le> ?P")
    case True
    then have "int r * ?P \<le> 4 * ?P" using rb by (simp add: mult_right_mono)
    with hi' show ?thesis by linarith
  next
    case False
    then have "int r * ?P \<le> 0" using rb by (simp add: mult_nonneg_nonpos)
    then show ?thesis by linarith
  qed
  have m: "sint (of_nat r * p :: goInt) = int r * ?P"
    using prod_lo prod_hi
    by (simp add: sint_word_ariths sint_small_nat [OF r] signed_take_bit_int_eq_self)
  let ?X = "int r * ?P"
  let ?Q = "?X sdiv 5"
  have q: "(0 \<le> ?X \<and> ?Q = ?X div 5) \<or> (?X < 0 \<and> ?Q = - ((- ?X) div 5))"
    using sdiv_five_bounds [of ?X] by linarith
  have q_lo: "- 9223372036854775808 \<le> ?Q" and q_hi: "?Q < 9223372036854775808"
    using q prod_lo prod_hi by linarith+
  have d: "sint (goDiv (of_nat r * p) (of_nat defaultMaxRetry)) = ?Q"
    using q_lo q_hi
    by (simp add: goDiv_def m defaultMaxRetry_def sint_sbintrunc' signed_take_bit_int_eq_self)
  have sgn: "(0 \<le> ?P \<and> 0 \<le> ?X \<and> ?X \<le> 4 * ?P) \<or> (?P < 0 \<and> ?X \<le> 0 \<and> 4 * ?P \<le> ?X)"
  proof (cases "0 \<le> ?P")
    case True
    then show ?thesis using rb by (simp add: mult_right_mono)
  next
    case False
    then show ?thesis using rb by (simp add: mult_nonneg_nonpos mult_right_mono_neg)
  qed
  have diff_lo: "- 9223372036854775808 \<le> ?P - ?Q" and diff_hi: "?P - ?Q < 9223372036854775808"
    using q sgn lo' hi' by linarith+
  have s: "sint (p - goDiv (of_nat r * p) (of_nat defaultMaxRetry)) = ?P - ?Q"
    using diff_lo diff_hi
    by (simp add: sint_word_ariths d signed_take_bit_int_eq_self)
  show ?thesis
    by (simp add: uploadOneFile_lowerConcurrency_def intMax_def defaultConcurrency_def s max_def)
qed

lemma lowerConcurrency_formula_mono:
  fixes P :: int
  assumes "r \<le> r'" and "r' < (5::nat)"
  shows "max 1 (P - (int r' * P) sdiv 5) \<le> max 1 (P - (int r * P) sdiv 5)"
proof (cases "0 \<le> P")
  case True
  then have a: "0 \<le> int r * P" "0 \<le> int r' * P" by simp_all
  have "int r * P \<le> int r' * P"
    using assms True by (simp add: mult_right_mono)
  then have "(int r * P) div 5 \<le> (int r' * P) div 5"
    by (simp add: zdiv_mono1)
  then show ?thesis
    using a by (simp add: sdiv_five_bounds)
next
  case False
  then have neg: "P < 0" by simp
  have "\<And>k. k < (5::nat) \<Longrightarrow> P - (int k * P) sdiv 5 \<le> 0"
  proof -
    fix k :: nat
    assume k: "k < 5"
    have x: "int k * P \<le> 0" "4 * P \<le> int k * P"
      using neg k by (simp_all add: mult_nonneg_nonpos mult_right_mono_neg)
    show "P - (int k * P) sdiv 5 \<le> 0"
    proof (cases "int k * P = 0")
      case True
      then show ?thesis using neg by simp
    next
      case False
      with x have "int k * P < 0" by linarith
      then have "(int k * P) sdiv 5 = - ((- (int k * P)) div 5)"
        by (rule sdiv_five_bounds)
      then show ?thesis using x neg by linarith
    qed
  qed
  from this [of r] this [of r'] assms show ?thesis by simp
qed

lemma uploadOneFile_lower:
  assumes "retry < 5" and "uploadOneFile_attempt utilClass mc w meta = (None, w1, m1)"
    and "resStatus m1 = needRetryWithLowerConcurrency"
  shows "uploadOneFile_loop utilClass retry mc lerr w meta
           = uploadOneFile_loop utilClass (Suc retry)
               (uploadOneFile_lowerConcurrency (parallel m1) retry) (lastError m1)
               (if noSleepingTime m1 then w1
                else w1\<lparr>slept := slept w1 @ [of_nat (min (2 ^ retry) 16)]\<rparr>)
               (m1\<lparr>lastMaxConcurrency := uploadOneFile_lowerConcurrency (parallel m1) retry\<rparr>)"
  using assms
  by (simp add: uploadOneFile_loop_step uploadOneFile_inspect_def uploadOneFile_sleep_def
        timeSleep_def sleepingTime_values Let_def)

text \<open>
  C2 says that for every declared parallelism the reduced concurrency is
  \<open>max(1, P - r*P/5)\<close> and does not increase with the retry index. The product
  \<open>retry * int(meta.parallel)\<close> is computed in 64 bits: for \<open>P = 2 ^ 62\<close> it wraps
  around at retry index 2, and the reduced concurrency there is larger than at retry
  index 1 (and larger than \<open>P\<close>).
\<close>

theorem lower_concurrency_overflow:
  "sint (uploadOneFile_lowerConcurrency 4611686018427387904 1) = 3689348814741910324
   \<and> sint (uploadOneFile_lowerConcurrency 4611686018427387904 2) = 6456360425798343065"
  by (simp add: uploadOneFile_lowerConcurrency_def goDiv_def intMax_def defaultConcurrency_def
        defaultMaxRetry_def)

text \<open>
  C2, as the code has it. For a declared parallelism \<open>P\<close> with \<open>- 2 ^ 61 \<le> P < 2 ^ 61\<close>
  (so that \<open>r * P\<close> fits in 64 bits for every retry index \<open>r < 5\<close>), the reduced
  concurrency is \<open>max 1 (P - (r * P) sdiv 5)\<close>, with the division truncated towards
  zero, and it does not increase with \<open>r\<close>. It is a function of the parallelism and the
  retry index alone. When an attempt ends with the status needs-retry-lower-concurrency,
  the loop goes on at this concurrency and records it in \<open>lastMaxConcurrency\<close>.
\<close>

theorem lower_concurrency:
  "(- (2 ^ 61) \<le> sint p \<and> sint p < 2 ^ 61 \<and> r < 5
    \<longrightarrow> sint (uploadOneFile_lowerConcurrency p r) = max 1 (sint p - (int r * sint p) sdiv 5))
 \<and> (- (2 ^ 61) \<le> sint q \<and> sint q < 2 ^ 61 \<and> r1 \<le> r2 \<and> r2 < 5
    \<longrightarrow> sint (uploadOneFile_lowerConcurrency q r2) \<le> sint (uploadOneFile_lowerConcurrency q r1))
 \<and> (retry < 5 \<and> uploadOneFile_attempt utilClass mc w meta = (None, w1, m1)
      \<and> resStatus m1 = needRetryWithLowerConcurrency
    \<longrightarrow> uploadOneFile_loop utilClass retry mc lerr w meta
          = uploadOneFile_loop utilClass (Suc retry)
              (uploadOneFile_lowerConcurrency (parallel m1) retry) (lastError m1)
              (if noSleepingTime m1 then w1
               else w1\<lparr>slept := slept w1 @ [of_nat (min (2 ^ retry) 16)]\<rparr>)
              (m1\<lparr>lastMaxConcurrency := uploadOneFile_lowerConcurrency (parallel m1) retry\<rparr>))"
proof (intro conjI impI)
  assume "- (2 ^ 61) \<le> sint p \<and> sint p < 2 ^ 61 \<and> r < 5"
  then show "sint (uploadOneFile_lowerConcurrency p r) = max 1 (sint p - (int r * sint p) sdiv 5)"
    using lowerConcurrency_sint by blast
next
  assume h: "- (2 ^ 61) \<le> sint q \<and> sint q < 2 ^ 61 \<and> r1 \<le> r2 \<and> r2 < 5"
  then have r: "r1 < 5" "r2 < 5" "r1 \<le> r2" by simp_all
  from h have b: "- (2 ^ 61) \<le> sint q" "sint q < 2 ^ 61" by simp_all
  show "sint (uploadOneFile_lowerConcurrency q r2) \<le> sint (uploadOneFile_lowerConcurrency q r1)"
    unfolding lowerConcurrency_sint [OF b r(1)] lowerConcurrency_sint [OF b r(2)]
    by (rule lowerConcurrency_formula_mono [OF r(3) r(2)])
next
  assume "retry < 5 \<and> uploadOneFile_attempt utilClass mc w meta = (None, w1, m1)
      \<and> resStatus m1 = needRetryWithLowerConcurrency"
  then show "uploadOneFile_loop utilClass retry mc lerr w meta
          = uploadOneFile_loop utilClass (Suc retry)
              (uploadOneFile_lowerConcurrency (parallel m1) retry) (lastError m1)
              (if noSleepingTime m1 then w1
               else w1\<lparr>slept := slept w1 @ [of_nat (min (2 ^ retry) 16)]\<rparr>)
              (m1\<lparr>lastMaxConcurrency := uploadOneFile_lowerConcurrency (parallel m1) retry\<rparr>)"
    using uploadOneFile_lower by blast
qed

lemma sample_lower: "uploadOneFile_lowerConcurrency 4 3 = 2" "uploadOneFile_lowerConcurrency 4 1 = 4"
  by (simp_all add: uploadOneFile_lowerConcurrency_def goDiv_def intMax_def defaultConcurrency_def
        defaultMaxRetry_def)

theorem lower_concurrency_witness:
  "sint (uploadOneFile_lowerConcurrency 4 3) = 2
   \<and> sint (uploadOneFile_lowerConcurrency 4 3) \<le> sint (uploadOneFile_lowerConcurrency 4 1)
   \<and> uploadOneFile_loop throttledUtil 3 4 None sampleWorld sampleMeta
      = uploadOneFile_loop throttledUtil 4 2 None \<lparr>sent = [], slept = [8]\<rparr>
          (sampleMeta\<lparr>resStatus := needRetryWithLowerConcurrency, lastMaxConcurrency := 2\<rparr>)"
  using lower_concurrency
    [where p = 4 and r = 3 and q = 4 and ?r1.0 = 1 and ?r2.0 = 3 and retry = 3
       and utilClass = throttledUtil and mc = 4 and w = sampleWorld and meta = sampleMeta
       and ?w1.0 = sampleWorld
       and ?m1.0 = "sampleMeta\<lparr>resStatus := needRetryWithLowerConcurrency\<rparr>"
       and lerr = None]
  by (simp add: uploadOneFile_attempt_overwrite sample_fields throttledUtil_def sample_lower
        sampleWorld_def)

section \<open>Verification after the upload\<close>

subsection \<open>C6: exhausted verification\<close>

text \<open>
  The two loops of \<open>uploadOneFileWithRetry\<close>, one step at a time, and their outcome when
  the probes, respectively the passes, run out.
\<close>

lemma inner_step:
  "j < 10 \<Longrightarrow>
   uploadOneFileWithRetry_inner utilClass j w meta =
     (case getFileHeader utilClass w meta (dstFileName meta) of
        (r, w1, m1) \<Rightarrow>
          (if resStatus m1 = notFoundFile
           then uploadOneFileWithRetry_inner utilClass (Suc j) (timeSleep 1 w1) m1
           else (False, w1, m1\<lparr>resStatus := resStatus meta\<rparr>)))"
  by (subst uploadOneFileWithRetry_inner.simps) simp

lemma inner_end:
  "10 \<le> j \<Longrightarrow> uploadOneFileWithRetry_inner utilClass j w meta = (True, w, meta)"
  by (subst uploadOneFileWithRetry_inner.simps) simp

lemma outer_step:
  "i < 10 \<Longrightarrow>
   uploadOneFileWithRetry_outer utilClass i w meta =
     (case uploadOneFile utilClass w meta of
        (Some err, w1, m1) \<Rightarrow> (Some err, True, w1, m1)
      | (None, w1, m1) \<Rightarrow>
          (case (if resStatus m1 = uploaded \<or> resStatus m1 = skipped
                 then uploadOneFileWithRetry_inner utilClass 0 w1 m1
                 else (True, w1, m1)) of
             (False, w2, m2) \<Rightarrow> (None, False, w2, m2)
           | (True, w2, m2) \<Rightarrow> uploadOneFileWithRetry_outer utilClass (Suc i) w2 m2))"
  by (subst uploadOneFileWithRetry_outer.simps) simp

lemma outer_end:
  "10 \<le> i \<Longrightarrow> uploadOneFileWithRetry_outer utilClass i w meta = (None, True, w, meta)"
  by (subst uploadOneFileWithRetry_outer.simps) simp

lemma probesNotFound_inner:
  "probesNotFound n utilClass w meta = Some (w', m') \<Longrightarrow> j + n = 10 \<Longrightarrow>
   uploadOneFileWithRetry_inner utilClass j w meta = (True, w', m')"
proof (induction n arbitrary: j w meta)
  case 0
  then show ?case by (simp add: inner_end)
next
  case (Suc n)
  then have j: "j < 10" by simp
  obtain r w1 m1 where g: "getFileHeader utilClass w meta (dstFileName meta) = (r, w1, m1)"
    by (cases "getFileHeader utilClass w meta (dstFileName meta)") auto
  with Suc.prems(1) have nf: "resStatus m1 = notFoundFile"
    and rest: "probesNotFound n utilClass (timeSleep 1 w1) m1 = Some (w', m')"
    by (simp_all split: if_splits)
  from Suc.prems(2) have "Suc j + n = 10" by simp
  from Suc.IH [OF rest this] g nf show ?case
    by (simp add: inner_step [OF j])
qed

lemma verificationExhausted_outer:
  "verificationExhausted n utilClass w meta = Some (w', m') \<Longrightarrow> i + n = 10 \<Longrightarrow>
   uploadOneFileWithRetry_outer utilClass i w meta = (None, True, w', m')"
proof (induction n arbitrary: i w meta)
  case 0
  then show ?case by (simp add: outer_end)
next
  case (Suc n)
  then have i: "i < 10" by simp
  obtain err w1 m1 where u: "uploadOneFile utilClass w meta = (err, w1, m1)"
    by (cases "uploadOneFile utilClass w meta") auto
  with Suc.prems(1) have e: "err = None"
    by (cases err) simp_all
  from Suc.prems(2) have n: "Suc i + n = 10" by simp
  show ?case
  proof (cases "resStatus m1 = uploaded \<or> resStatus m1 = skipped")
    case True
    with Suc.prems(1) u e obtain w2 m2
      where p: "probesNotFound 10 utilClass w1 m1 = Some (w2, m2)"
        and rest: "verificationExhausted n utilClass w2 m2 = Some (w', m')"
      by (auto split: option.splits)
    from probesNotFound_inner [OF p, of 0]
    have "uploadOneFileWithRetry_inner utilClass 0 w1 m1 = (True, w2, m2)" by simp
    with Suc.IH [OF rest n] u e True show ?thesis
      by (simp add: outer_step [OF i])
  next
    case False
    with Suc.prems(1) u e have rest: "verificationExhausted n utilClass w1 m1 = Some (w', m')"
      by simp
    with Suc.IH [OF rest n] u e False show ?thesis
      by (simp add: outer_step [OF i])
  qed
qed

text \<open>
  C6: when all ten passes of the outer loop go by without an error from \<open>uploadOneFile\<close>
  and without a confirmation (in each pass the status after the upload is neither
  uploaded nor skipped, or all ten probes leave the status not-found),
  \<open>uploadOneFileWithRetry\<close> sets the status to error and returns a nil error.
\<close>

theorem exhausted_verification_is_soft:
  assumes "verificationExhausted 10 utilClass w meta = Some (w', m')"
  shows "uploadOneFileWithRetry utilClass w meta = (None, w', m'\<lparr>resStatus := errStatus\<rparr>)"
  using verificationExhausted_outer [OF assms, of 0]
  by (simp add: uploadOneFileWithRetry_def)

lemma lagging_header:
  "getFileHeader laggingUtil w meta f = ((None, None), w, meta\<lparr>resStatus := notFoundFile\<rparr>)"
  by (simp add: laggingUtil_def)

lemma lagging_uploadFile:
  "uploadFile laggingUtil w f meta mc thr = (None, w, meta\<lparr>resStatus := uploaded\<rparr>)"
  by (simp add: laggingUtil_def)

lemma lagging_upload:
  "overwrite meta \<Longrightarrow>
   uploadOneFile laggingUtil w meta = (None, w, meta\<lparr>resStatus := uploaded\<rparr>)"
  by (simp add: uploadOneFile_def uploadOneFile_loop_step uploadOneFile_attempt_overwrite
        uploadOneFile_inspect_def lagging_uploadFile)

lemma lagging_probes:
  "probesNotFound (Suc n) laggingUtil w meta
     = Some (w\<lparr>slept := slept w @ replicate (Suc n) 1\<rparr>, meta\<lparr>resStatus := notFoundFile\<rparr>)"
proof (induction n arbitrary: w meta)
  case 0
  show ?case by (simp add: lagging_header timeSleep_def)
next
  case (Suc n)
  have "probesNotFound (Suc (Suc n)) laggingUtil w meta
          = probesNotFound (Suc n) laggingUtil (timeSleep 1 w) (meta\<lparr>resStatus := notFoundFile\<rparr>)"
    by (simp add: lagging_header)
  then show ?case
    by (simp only: Suc.IH) (simp add: timeSleep_def replicate_app_Cons_same)
qed

lemma lagging_probes_ten:
  "probesNotFound 10 laggingUtil w meta
     = Some (w\<lparr>slept := slept w @ replicate 10 1\<rparr>, meta\<lparr>resStatus := notFoundFile\<rparr>)"
  using lagging_probes [of 9 w meta] by (simp del: replicate.simps)

lemma lagging_exhausted:
  "overwrite meta \<Longrightarrow>
   verificationExhausted (Suc n) laggingUtil w meta
     = Some (w\<lparr>slept := slept w @ replicate (10 * Suc n) 1\<rparr>, meta\<lparr>resStatus := notFoundFile\<rparr>)"
proof (induction n arbitrary: w meta)
  case 0
  then show ?case
    by (simp add: lagging_upload lagging_probes_ten del: replicate.simps)
next
  case (Suc n)
  let ?w2 = "w\<lparr>slept := slept w @ replicate 10 1\<rparr>"
  let ?m2 = "meta\<lparr>resStatus := notFoundFile\<rparr>"
  have step: "verificationExhausted (Suc (Suc n)) laggingUtil w meta
          = verificationExhausted (Suc n) laggingUtil ?w2 ?m2"
    using Suc.prems
    by (simp add: lagging_upload lagging_probes_ten del: replicate.simps)
  have ov: "overwrite ?m2" using Suc.prems by simp
  have rep: "replicate 10 (1::goInt) @ replicate (10 + 10 * n) 1 = replicate (20 + 10 * n) 1"
    by (simp add: replicate_add [symmetric] del: replicate.simps)
  show ?case
    unfolding step Suc.IH [OF ov]
    by (simp add: rep del: replicate.simps)
qed

theorem exhausted_verification_is_soft_witness:
  "uploadOneFileWithRetry laggingUtil sampleWorld sampleMeta
     = (None, \<lparr>sent = [], slept = replicate 100 1\<rparr>, sampleMeta\<lparr>resStatus := errStatus\<rparr>)"
  using exhausted_verification_is_soft
    [of laggingUtil sampleWorld sampleMeta "\<lparr>sent = [], slept = replicate 100 1\<rparr>"
        "sampleMeta\<lparr>resStatus := notFoundFile\<rparr>"]
        lagging_exhausted [of sampleMeta 9 sampleWorld]
  by (simp add: sample_fields sampleWorld_def del: replicate.simps)

section \<open>The encryption envelope\<close>

subsection \<open>C7: the envelope comes back\<close>
















end
